theory Spec2Isabelle
  imports Main "HOL-Library.Product_Lexorder" "HOL-Library.Multiset"
begin

section \<open>The scheduler of BasicCore (core.py)\<close>

subsection \<open>ScheduledEvent\<close>

text \<open>
  \<^verbatim>\<open>class ScheduledEvent\<close>: the handle returned by \<^verbatim>\<open>schedule\<close>. The callable with its
  arguments is the opaque value \<open>event_function\<close>; invoking it is recorded in the log \<open>calls\<close>
  of the core (below) under the handle of the event.
\<close>

record 'f ScheduledEvent =
  event_function :: 'f
  canceled :: bool
  finished :: bool

definition ScheduledEvent_init :: "'f \<Rightarrow> 'f ScheduledEvent" where
  "ScheduledEvent_init f = \<lparr>event_function = f, canceled = False, finished = False\<rparr>"

text \<open>
  What the heap holds as third component of an entry: either a ScheduledEvent object
  (run through its \<^verbatim>\<open>__call__\<close>) or the closure \<^verbatim>\<open>wrapper\<close> that
  \<^verbatim>\<open>_schedule_iter\<close> builds around an event and its iterator. Objects are named by
  their handle, the index in the store \<open>objects\<close>.
\<close>

datatype callback = EventCall nat | Wrapper nat

text \<open>
  A lazily produced sequence of deadlines: \<open>it 0\<close> is the value of the next
  \<^verbatim>\<open>next(it)\<close>, \<open>None\<close> standing for StopIteration. Finite and infinite generators alike.
\<close>

type_synonym 't iterator = "nat \<Rightarrow> 't option"

definition next_it :: "'t iterator \<Rightarrow> ('t \<times> 't iterator) option" where
  "next_it it = (case it 0 of None \<Rightarrow> None | Some t \<Rightarrow> Some (t, \<lambda>n. it (Suc n)))"

text \<open>The first argument of \<^verbatim>\<open>schedule\<close>: one instant, or something \<^verbatim>\<open>iter()\<close> accepts.\<close>

datatype 't deadline = Instant 't | Sequence "'t iterator"

subsection \<open>heapq\<close>

text \<open>
  \<^verbatim>\<open>heapq\<close> is the priority queue of Python's standard library. The model keeps the
  content of the heap and leaves its array layout out: \<^verbatim>\<open>heap[0]\<close> is the least entry,
  \<^verbatim>\<open>heappop\<close> removes and returns it. Entries are the tuples
  \<^verbatim>\<open>(deadline, tie_breaker, callback)\<close>, compared as Python compares tuples, from the
  left; the tie breakers of the entries of one heap are pairwise different (lemma
  \<open>distinct_keys_submitted\<close>), so that the comparison never reaches the callback.
\<close>

type_synonym 'd entry = "'d \<times> nat \<times> callback"

definition entry_key :: "'d entry \<Rightarrow> 'd \<times> nat" where
  "entry_key e = (fst e, fst (snd e))"

definition heappush :: "'d entry list \<Rightarrow> 'd entry \<Rightarrow> 'd entry list" where
  "heappush heap e = heap @ [e]"

definition heap_top :: "('d::linorder) entry list \<Rightarrow> 'd entry" where
  "heap_top heap = arg_min_list entry_key heap"

definition heappop :: "('d::linorder) entry list \<Rightarrow> 'd entry \<times> 'd entry list" where
  "heappop heap = (heap_top heap, remove1 (heap_top heap) heap)"

subsection \<open>BasicCore: the fields the scheduler uses\<close>

text \<open>
  \<open>schedule_heap\<close> is \<^verbatim>\<open>self._schedule\<close>; \<open>schedule_event\<close> is
  \<^verbatim>\<open>self._schedule_event\<close>, \<open>None\<close> until \<^verbatim>\<open>run\<close> creates the gevent Event and
  then \<open>Some\<close> of its flag. \<open>objects\<close> is the store of the ScheduledEvent objects
  created so far and \<open>iterators\<close> gives, for the handle of an event scheduled with a
  sequence, the iterator its \<^verbatim>\<open>wrapper\<close> closure holds. \<open>greenlets\<close> is the queue of the
  greenlets that \<^verbatim>\<open>schedule_loop\<close> has spawned and the hub has not run yet, oldest
  first, and \<open>calls\<close> logs every \<^verbatim>\<open>event.function(*event.args, **event.kwargs)\<close>.
\<close>

record ('d, 't, 'f) BasicCore =
  schedule_heap :: "'d entry list"
  schedule_event :: "bool option"
  tie_breaker :: nat
  objects :: "'f ScheduledEvent list"
  iterators :: "nat \<Rightarrow> 't iterator"
  greenlets :: "callback list"
  calls :: "nat list"

definition BasicCore_init :: "('d, 't, 'f) BasicCore" where
  "BasicCore_init = \<lparr>schedule_heap = [], schedule_event = None, tie_breaker = 0,
     objects = [], iterators = (\<lambda>h n. None), greenlets = [], calls = []\<rparr>"

definition get_tie_breaker ::
  "('d, 't, 'f) BasicCore \<Rightarrow> nat \<times> ('d, 't, 'f) BasicCore" where
  "get_tie_breaker c =
     (let c' = c\<lparr>tie_breaker := tie_breaker c + 1\<rparr> in (tie_breaker c', c'))"

text \<open>
  \<^verbatim>\<open>_schedule_callback\<close>. \<open>conv\<close> stands for \<^verbatim>\<open>utils.get_utc_seconds_from_epoch\<close>,
  which is not among the source files: it turns the caller's deadline into the number
  the heap is ordered by.
\<close>

definition schedule_callback ::
  "('t \<Rightarrow> 'd) \<Rightarrow> ('d, 't, 'f) BasicCore \<Rightarrow> 't \<Rightarrow> callback \<Rightarrow> ('d, 't, 'f) BasicCore" where
  "schedule_callback conv c deadline cb =
     (let d = conv deadline;
          (tie, c1) = get_tie_breaker c;
          c2 = c1\<lparr>schedule_heap := heappush (schedule_heap c1) (d, tie, cb)\<rparr>
      in case schedule_event c2 of
           None \<Rightarrow> c2
         | Some _ \<Rightarrow> c2\<lparr>schedule_event := Some True\<rparr>)"

definition set_finished :: "('d, 't, 'f) BasicCore \<Rightarrow> nat \<Rightarrow> ('d, 't, 'f) BasicCore" where
  "set_finished c h = c\<lparr>objects := (objects c)[h := (objects c ! h)\<lparr>finished := True\<rparr>]\<rparr>"

definition call_function :: "('d, 't, 'f) BasicCore \<Rightarrow> nat \<Rightarrow> ('d, 't, 'f) BasicCore" where
  "call_function c h = c\<lparr>calls := calls c @ [h]\<rparr>"

text \<open>\<^verbatim>\<open>ScheduledEvent.cancel\<close> and \<^verbatim>\<open>ScheduledEvent.__call__\<close>, on the object with handle \<open>h\<close>.\<close>

definition cancel :: "('d, 't, 'f) BasicCore \<Rightarrow> nat \<Rightarrow> ('d, 't, 'f) BasicCore" where
  "cancel c h = c\<lparr>objects := (objects c)[h := (objects c ! h)\<lparr>canceled := True\<rparr>]\<rparr>"

definition ScheduledEvent_call ::
  "('d, 't, 'f) BasicCore \<Rightarrow> nat \<Rightarrow> ('d, 't, 'f) BasicCore" where
  "ScheduledEvent_call c h =
     set_finished (if \<not> canceled (objects c ! h) then call_function c h else c) h"

text \<open>The closure \<^verbatim>\<open>wrapper\<close> of \<^verbatim>\<open>_schedule_iter\<close>, for the event with handle \<open>h\<close>.\<close>

definition wrapper ::
  "('t \<Rightarrow> 'd) \<Rightarrow> ('d, 't, 'f) BasicCore \<Rightarrow> nat \<Rightarrow> ('d, 't, 'f) BasicCore" where
  "wrapper conv c h =
     (if canceled (objects c ! h) then set_finished c h
      else case next_it (iterators c h) of
             None \<Rightarrow> set_finished (call_function c h) h
           | Some (deadline, it') \<Rightarrow>
               call_function
                 (schedule_callback conv (c\<lparr>iterators := (iterators c)(h := it')\<rparr>)
                    deadline (Wrapper h)) h)"

definition schedule_iter ::
  "('t \<Rightarrow> 'd) \<Rightarrow> ('d, 't, 'f) BasicCore \<Rightarrow> 't iterator \<Rightarrow> nat \<Rightarrow> ('d, 't, 'f) BasicCore" where
  "schedule_iter conv c it h =
     (case next_it it of
        None \<Rightarrow> set_finished c h
      | Some (deadline, it') \<Rightarrow>
          schedule_callback conv (c\<lparr>iterators := (iterators c)(h := it')\<rparr>)
            deadline (Wrapper h))"

text \<open>
  \<^verbatim>\<open>schedule\<close> (the instance method): a new ScheduledEvent, scheduled once or through
  its iterator; the handle of the event is returned.
\<close>

definition schedule ::
  "('t \<Rightarrow> 'd) \<Rightarrow> ('d, 't, 'f) BasicCore \<Rightarrow> 't deadline \<Rightarrow> 'f
     \<Rightarrow> ('d, 't, 'f) BasicCore \<times> nat" where
  "schedule conv c deadline func =
     (let h = length (objects c);
          c1 = c\<lparr>objects := objects c @ [ScheduledEvent_init func]\<rparr>
      in case deadline of
           Instant t \<Rightarrow> (schedule_callback conv c1 t (EventCall h), h)
         | Sequence it \<Rightarrow> (schedule_iter conv c1 it h, h))"

subsection \<open>schedule\_loop\<close>

text \<open>
  The inner loop \<^verbatim>\<open>while heap and now >= heap[0][0]\<close>: the entries popped, in the
  order in which their callbacks are spawned, and the heap that is left.
\<close>

function pop_due :: "('d::linorder) \<Rightarrow> 'd entry list \<Rightarrow> 'd entry list \<times> 'd entry list" where
  "pop_due now heap =
     (if heap \<noteq> [] \<and> fst (heap_top heap) \<le> now
      then (let (e, heap') = heappop heap;
                (es, heap'') = pop_due now heap'
            in (e # es, heap''))
      else ([], heap))"
  by pat_completeness auto
termination
  by (relation "measure (\<lambda>(now, heap). length heap)")
     (auto simp: heappop_def heap_top_def length_remove1 arg_min_list_in
           intro!: diff_less)

declare pop_due.simps [simp del]

text \<open>
  One round of \<^verbatim>\<open>schedule_loop\<close>, from the return of \<^verbatim>\<open>event.wait(timeout)\<close> on:
  the event is cleared if it was set, the clock is read (\<open>now\<close>), and every due entry
  is popped and its callback spawned. The popped entries are returned with the core.
\<close>

definition schedule_loop_round ::
  "('d::linorder) \<Rightarrow> ('d, 't, 'f) BasicCore \<Rightarrow> ('d, 't, 'f) BasicCore \<times> 'd entry list" where
  "schedule_loop_round now c =
     (let (es, heap') = pop_due now (schedule_heap c)
      in (c\<lparr>schedule_heap := heap',
             schedule_event := map_option (\<lambda>_. False) (schedule_event c),
             greenlets := greenlets c @ map (\<lambda>e. snd (snd e)) es\<rparr>, es))"


text \<open>The hub switches to the oldest greenlet spawned by the loop, which runs its callback.\<close>

fun run_callback ::
  "('t \<Rightarrow> 'd) \<Rightarrow> ('d, 't, 'f) BasicCore \<Rightarrow> callback \<Rightarrow> ('d, 't, 'f) BasicCore" where
  "run_callback conv c (EventCall h) = ScheduledEvent_call c h"
| "run_callback conv c (Wrapper h) = wrapper conv c h"

definition switch :: "('t \<Rightarrow> 'd) \<Rightarrow> ('d, 't, 'f) BasicCore \<Rightarrow> ('d, 't, 'f) BasicCore" where
  "switch conv c =
     (case greenlets c of
        [] \<Rightarrow> c
      | g # gs \<Rightarrow> run_callback conv (c\<lparr>greenlets := gs\<rparr>) g)"

text \<open>
  What can happen to the scheduler, in any order: a call of \<^verbatim>\<open>schedule\<close>, a call of
  \<^verbatim>\<open>cancel\<close> on a handle, a round of the loop at a clock reading, a greenlet switch.
\<close>

datatype ('d, 't, 'f) sched_op =
  Schedule "'t deadline" 'f | Cancel nat | Wake 'd | Switch

fun sched_step ::
  "('t \<Rightarrow> 'd) \<Rightarrow> ('d::linorder, 't, 'f) BasicCore \<Rightarrow> ('d, 't, 'f) sched_op
     \<Rightarrow> ('d, 't, 'f) BasicCore" where
  "sched_step conv c (Schedule deadline func) = fst (schedule conv c deadline func)"
| "sched_step conv c (Cancel h) = cancel c h"
| "sched_step conv c (Wake now) = fst (schedule_loop_round now c)"
| "sched_step conv c Switch = switch conv c"

definition sched_run ::
  "('t \<Rightarrow> 'd) \<Rightarrow> ('d::linorder, 't, 'f) BasicCore \<Rightarrow> ('d, 't, 'f) sched_op list
     \<Rightarrow> ('d, 't, 'f) BasicCore" where
  "sched_run conv c ops = foldl (sched_step conv) c ops"



text \<open>The handle \<open>h\<close> names an existing event whose \<^verbatim>\<open>canceled\<close> flag is set.\<close>

definition is_canceled :: "('d, 't, 'f) BasicCore \<Rightarrow> nat \<Rightarrow> bool" where
  "is_canceled c h \<longleftrightarrow> h < length (objects c) \<and> canceled (objects c ! h)"

section \<open>Core: handshake, dispatch and lifecycle (core.py)\<close>

unbundle bit_operations_syntax

subsection \<open>Messages, signals and the effects of the core\<close>

text \<open>
  The elements of \<^verbatim>\<open>message.args\<close> are opaque values; the core itself only meets
  strings and numbers among them.
\<close>

datatype arg = Str string | Num int

text \<open>
  \<^verbatim>\<open>Message\<close> (socket.py, not among the source files, an object with the attributes
  below). The attribute \<^verbatim>\<open>id\<close> is the field \<open>msg_id\<close>. A message built without
  \<^verbatim>\<open>user\<close> has the empty one.
\<close>

record Message =
  peer :: string
  subsystem :: string
  msg_id :: string
  user :: string
  args :: "arg list"

text \<open>
  \<^verbatim>\<open>VIPError.from_errno(*args)\<close> (errors.py, not among the source files): the error
  object built from the arguments of an error frame, kept as the arguments it was built
  from.
\<close>

datatype VIPError = from_errno "arg list"

datatype signal =
  onsetup | onstart | onstop | onfinish | onsockevent | onconnected | ondisconnected
  | configuration

text \<open>
  An entry of \<^verbatim>\<open>self.subsystems\<close>: the bound method \<^verbatim>\<open>self.handle_error\<close>, or a
  handler of a collaborating subsystem, which is code outside the core and known by
  a number only.
\<close>

datatype handler = handle_error_method | Handler nat

text \<open>
  A receiver connected to \<^verbatim>\<open>onviperror\<close>: the closure \<^verbatim>\<open>onerror\<close> that
  \<^verbatim>\<open>register\<close> builds for a subsystem name and an error handler, or any other observer.
\<close>

datatype receiver = onerror_closure string nat | Observer nat

datatype level = DEBUG | INFO | ERROR

text \<open>
  What the core does to the outside, in the order in which it does it: sending a
  signal (with its keyword arguments), sending a frame, calling a handler of a
  subsystem or an error handler, writing a log record (the format string stands for the
  record), setting the caller's running event, switching the socket monitor off.
\<close>

datatype effect =
    SignalSend signal "arg list"
  | VipErrorSend VIPError Message
  | ErrorHandlerCall nat VIPError Message
  | ObserverCall nat VIPError Message
  | SendVipObject Message
  | SendVip string string "arg list"
  | HandlerCall nat Message
  | Log level string
  | RunningEventSet
  | DisableMonitor

text \<open>
  What the core uses and the source files do not hold: the tuple
  \<^verbatim>\<open>router._INVALID_SUBSYSTEM\<close> (error code and message of an unknown subsystem), the
  attribute \<^verbatim>\<open>subsystem\<close> of a VIPError, and the truth value of a Signal object
  (dispatch.py), which \<^verbatim>\<open>handle_error\<close> tests; the last is given as a function of the
  receivers connected to the signal.
\<close>

record env =
  INVALID_SUBSYSTEM :: "arg list"
  error_subsystem :: "VIPError \<Rightarrow> string"
  Signal_bool :: "receiver list \<Rightarrow> bool"

text \<open>The truth value of a Signal that is false exactly when nothing is connected to it.\<close>

definition receivers_nonempty :: "receiver list \<Rightarrow> bool" where
  "receivers_nonempty rs \<longleftrightarrow> rs \<noteq> []"

subsection \<open>The state of a Core\<close>

text \<open>
  The attributes of \<^verbatim>\<open>Core\<close> that the handshake, the dispatch and the lifecycle use.
  \<open>state_count\<close> and \<open>state_ident\<close> are the attributes of the \<^verbatim>\<open>HelloState\<close> object of
  \<^verbatim>\<open>loop\<close>; \<open>hello_response_event\<close> and \<open>stop_event\<close> are the flags of the gevent
  Events of these names; \<open>running_event\<close> is the argument of \<^verbatim>\<open>run\<close>, \<open>None\<close> when the
  caller gave none, else the flag of the caller's event. \<open>vip_loop_alive\<close> and
  \<open>monitor_alive\<close> say whether the greenlets running \<^verbatim>\<open>vip_loop\<close> and \<^verbatim>\<open>monitor\<close> are
  in their loops. \<open>clock\<close> is the time in seconds, and \<open>checks\<close> holds, for each
  greenlet that runs \<^verbatim>\<open>connection_failed_check\<close> and is still in
  \<^verbatim>\<open>hello_response_event.wait(10.0)\<close>, the time at which this wait ends.
\<close>

record Core =
  delay_onstart_signal :: bool
  delay_running_event_set :: bool
  identity :: string
  address :: string
  messagebus :: string
  subsystems :: "string \<rightharpoonup> handler"
  onviperror :: "receiver list"
  connected :: bool
  reconnect_attempt :: nat
  state_count :: nat
  state_ident :: "string option"
  hello_response_event :: bool
  running_event :: "bool option"
  stop_event :: bool
  vip_loop_alive :: bool
  monitor_alive :: bool
  clock :: nat
  checks :: "nat list"

text \<open>
  \<^verbatim>\<open>Core.__init__\<close>, with the class attributes \<^verbatim>\<open>delay_onstart_signal = True\<close> and
  \<^verbatim>\<open>delay_running_event_set = True\<close> of \<^verbatim>\<open>Core\<close>, and the argument of \<^verbatim>\<open>run\<close>.
\<close>

definition Core_init :: "string \<Rightarrow> string \<Rightarrow> string \<Rightarrow> bool option \<Rightarrow> Core" where
  "Core_init ident addr bus running =
     \<lparr>delay_onstart_signal = True, delay_running_event_set = True,
      identity = ident, address = addr, messagebus = bus,
      subsystems = [''error'' \<mapsto> handle_error_method], onviperror = [],
      connected = False, reconnect_attempt = 0,
      state_count = 0, state_ident = None,
      hello_response_event = False, running_event = running, stop_event = False,
      vip_loop_alive = False, monitor_alive = False, clock = 0, checks = []\<rparr>"

subsection \<open>register and handle\_error\<close>

text \<open>
  \<^verbatim>\<open>Core.register\<close>: \<^verbatim>\<open>self.subsystems[name] = handler\<close>, and with an error handler the
  closure \<^verbatim>\<open>onerror\<close> is connected to \<^verbatim>\<open>onviperror\<close>.
\<close>

definition register :: "Core \<Rightarrow> string \<Rightarrow> handler \<Rightarrow> nat option \<Rightarrow> Core" where
  "register c name h error_handler =
     (let c1 = c\<lparr>subsystems := (subsystems c)(name \<mapsto> h)\<rparr>
      in case error_handler of
           None \<Rightarrow> c1
         | Some eh \<Rightarrow> c1\<lparr>onviperror := onviperror c1 @ [onerror_closure name eh]\<rparr>)"

text \<open>What a receiver of \<^verbatim>\<open>onviperror\<close> does when the signal is sent.\<close>

fun receive_viperror :: "env \<Rightarrow> VIPError \<Rightarrow> Message \<Rightarrow> receiver \<Rightarrow> effect list" where
  "receive_viperror env error message (onerror_closure name eh) =
     (if error_subsystem env error = name then [ErrorHandlerCall eh error message] else [])"
| "receive_viperror env error message (Observer k) = [ObserverCall k error message]"

definition onviperror_send :: "env \<Rightarrow> Core \<Rightarrow> VIPError \<Rightarrow> Message \<Rightarrow> effect list" where
  "onviperror_send env c error message =
     VipErrorSend error message # concat (map (receive_viperror env error message) (onviperror c))"

text \<open>\<^verbatim>\<open>Core.handle_error\<close>.\<close>

definition handle_error :: "env \<Rightarrow> Core \<Rightarrow> Message \<Rightarrow> effect list" where
  "handle_error env c message =
     (if length (args message) < 4 then [Log DEBUG ''unhandled VIP error %s'']
      else if Signal_bool env (onviperror c) then
        onviperror_send env c (from_errno (args message)) message
      else [])"

subsection \<open>stop, and the handlers of create\_event\_handlers\<close>

text \<open>
  \<^verbatim>\<open>Core.stop\<close>: the router is told when the core is connected, then
  \<^verbatim>\<open>BasicCore.stop\<close> sets the stop event (and joins the greenlet of \<^verbatim>\<open>run\<close>).
\<close>

definition stop :: "Core \<Rightarrow> bool \<Rightarrow> Core \<times> effect list" where
  "stop c platform_shutdown =
     (c\<lparr>stop_event := True\<rparr>,
      if connected c \<and> \<not> platform_shutdown
      then [SendVip '''' ''agentstop'' [Str (identity c)]] else [])"

text \<open>
  \<^verbatim>\<open>connection_failed_check\<close>, from the return of \<^verbatim>\<open>hello_response_event.wait(10.0)\<close>
  on; \<open>waited\<close> is what the wait returned.
\<close>

definition connection_failed_check :: "Core \<Rightarrow> bool \<Rightarrow> Core \<times> effect list" where
  "connection_failed_check c waited =
     (if waited then (c, [])
      else let (c', effs) = stop c False
           in (c', [Log ERROR ''No response to hello message after 10 seconds.'',
                    Log ERROR ''Type of message bus used {}'',
                    Log ERROR ''A common reason for this is a conflicting VIP IDENTITY.'',
                    Log ERROR ''Another common reason is not having an auth entry onthe target instance.'',
                    Log ERROR ''Shutting down agent.'',
                    Log ERROR ''Possible conflicting identity is: {}''] @ effs))"

text \<open>The decimal digits of a number, as \<^verbatim>\<open>'%d'\<close> writes them.\<close>

function str_nat :: "nat \<Rightarrow> string" where
  "str_nat n =
     (if n < 10 then [''0123456789'' ! n]
      else str_nat (n div 10) @ [''0123456789'' ! (n mod 10)])"
  by pat_completeness auto
termination
  by (relation "measure id") auto

declare str_nat.simps [simp del]

text \<open>The length, in seconds, of the wait of \<^verbatim>\<open>connection_failed_check\<close>.\<close>

definition hello_timeout :: nat where
  "hello_timeout = 10"

text \<open>
  \<^verbatim>\<open>hello\<close>: a new correlation id is recorded, a greenlet running
  \<^verbatim>\<open>connection_failed_check\<close> is spawned and the hello frame is sent. The greenlet
  enters its wait, which ends \<open>hello_timeout\<close> seconds later.
\<close>

definition hello :: "Core \<Rightarrow> Core \<times> effect list" where
  "hello c =
     (let ident = ''connect.hello.'' @ str_nat (state_count c);
          c1 = c\<lparr>state_ident := Some ident, state_count := state_count c + 1\<rparr>;
          c2 = c1\<lparr>checks := checks c1 @ [clock c1 + hello_timeout]\<rparr>;
          message = \<lparr>peer = '''', subsystem = ''hello'', msg_id = ident, user = '''',
                     args = [Str ''hello'']\<rparr>
      in (c2, [SendVipObject message]))"

text \<open>\<^verbatim>\<open>hello_response\<close>, the receiver that \<^verbatim>\<open>loop\<close> connects to \<^verbatim>\<open>onconnected\<close>.\<close>

definition hello_response :: "Core \<Rightarrow> Core \<times> effect list" where
  "hello_response c =
     (let c1 = c\<lparr>hello_response_event := True\<rparr>;
          effs = [Log INFO ''Connected to platform: router: {} version: {} identity: {}'',
                  Log DEBUG ''Running onstart methods.'',
                  SignalSend onstart [], SignalSend configuration []]
      in case running_event c1 of
           None \<Rightarrow> (c1, effs)
         | Some _ \<Rightarrow> (c1\<lparr>running_event := Some True\<rparr>, effs @ [RunningEventSet]))"

subsection \<open>The receive loops\<close>

text \<open>The test of \<^verbatim>\<open>vip_loop\<close> for the welcome frame that answers the outstanding hello.\<close>

definition is_welcome :: "Core \<Rightarrow> Message \<Rightarrow> bool" where
  "is_welcome c message \<longleftrightarrow>
     subsystem message = ''hello'' \<and> Some (msg_id message) = state_ident c \<and>
     length (args message) > 3 \<and> args message ! 0 = Str ''welcome''"

text \<open>
  The branch of \<^verbatim>\<open>vip_loop\<close> for the welcome frame: \<^verbatim>\<open>self.connected = True\<close> and
  \<^verbatim>\<open>self.onconnected.send(...)\<close>, which runs \<^verbatim>\<open>hello_response\<close>.
\<close>

definition on_welcome :: "Core \<Rightarrow> Message \<Rightarrow> Core \<times> effect list" where
  "on_welcome c message =
     (let c1 = c\<lparr>connected := True\<rparr>;
          (c2, effs) = hello_response c1
      in (c2, SignalSend onconnected (take 3 (drop 1 (args message))) # effs))"

text \<open>\<^verbatim>\<open>handle(message)\<close> for the handler found in \<^verbatim>\<open>self.subsystems\<close>.\<close>

fun call_handler :: "env \<Rightarrow> Core \<Rightarrow> handler \<Rightarrow> Message \<Rightarrow> effect list" where
  "call_handler env c handle_error_method message = handle_error env c message"
| "call_handler env c (Handler k) message = [HandlerCall k message]"

text \<open>
  The \<^verbatim>\<open>except KeyError\<close> branch of \<^verbatim>\<open>vip_loop\<close>: the received message object is
  overwritten and sent back. The result is the message object after these assignments.
\<close>

definition unknown_subsystem :: "env \<Rightarrow> Message \<Rightarrow> Message" where
  "unknown_subsystem env message =
     (let m1 = message\<lparr>user := ''''\<rparr>;
          m2 = m1\<lparr>args := INVALID_SUBSYSTEM env\<rparr>;
          m3 = m2\<lparr>args := args m2 @ [Str (subsystem m2)]\<rparr>
      in m3\<lparr>subsystem := ''error''\<rparr>)"

text \<open>
  One round of \<^verbatim>\<open>ZMQCore.loop.vip_loop\<close> from the received message on: the core, the
  effects, and the received message object as the round leaves it.
\<close>

definition zmq_vip_loop_body :: "env \<Rightarrow> Core \<Rightarrow> Message \<Rightarrow> Core \<times> effect list \<times> Message" where
  "zmq_vip_loop_body env c message =
     (if is_welcome c message then
        (let (c', effs) = on_welcome c message in (c', effs, message))
      else case subsystems c (subsystem message) of
             None \<Rightarrow>
               (let message' = unknown_subsystem env message
                in (c, [Log ERROR ''peer %r requested unknown subsystem %r'',
                        SendVipObject message'], message'))
           | Some h \<Rightarrow> (c, call_handler env c h message, message))"

text \<open>
  The same for \<^verbatim>\<open>RMQCore.loop.vip_loop\<close>, from a message taken off the event queue on.
\<close>

definition rmq_vip_loop_body :: "env \<Rightarrow> Core \<Rightarrow> Message \<Rightarrow> Core \<times> effect list \<times> Message" where
  "rmq_vip_loop_body env c message =
     (if subsystem message = ''hello'' \<and> is_welcome c message then
        (let (c', effs) = on_welcome c message in (c', effs, message))
      else case subsystems c (subsystem message) of
             None \<Rightarrow>
               (let message' = unknown_subsystem env message
                in (c, [Log ERROR ''peer %r requested unknown subsystem %r'',
                        SendVipObject message'], message'))
           | Some h \<Rightarrow> (c, call_handler env c h message, message))"

subsection \<open>The socket monitor of ZMQCore and the callbacks of RMQCore\<close>

text \<open>The event flags of libzmq that \<^verbatim>\<open>monitor\<close> tests (the values of \<^verbatim>\<open>zmq.h\<close>).\<close>

definition EVENT_CONNECTED :: nat where "EVENT_CONNECTED = 1"
definition EVENT_CONNECT_RETRIED :: nat where "EVENT_CONNECT_RETRIED = 4"
definition EVENT_DISCONNECTED :: nat where "EVENT_DISCONNECTED = 512"
definition EVENT_MONITOR_STOPPED :: nat where "EVENT_MONITOR_STOPPED = 1024"

text \<open>
  The branch of \<^verbatim>\<open>monitor\<close> taken when the counter reaches 50, which is also the body
  of \<^verbatim>\<open>connection_error\<close> of \<^verbatim>\<open>RMQCore.loop\<close> (without the monitor).
\<close>

definition give_up :: "Core \<Rightarrow> bool \<Rightarrow> Core \<times> effect list" where
  "give_up c with_monitor =
     (let c1 = c\<lparr>connected := False\<rparr>;
          (c2, effs) = stop c1 False
      in (c2, (if with_monitor then [DisableMonitor] else []) @ effs
              @ [SignalSend ondisconnected []]))"

text \<open>
  One round of the loop of \<^verbatim>\<open>monitor\<close>, for the event \<open>event\<close> read from the monitor
  socket.
\<close>

definition monitor_body :: "Core \<Rightarrow> nat \<Rightarrow> Core \<times> effect list" where
  "monitor_body c event =
     (let sent = SignalSend onsockevent [Num (int event)]
      in if event AND EVENT_CONNECTED \<noteq> 0 then
           (let (c', effs) = hello c in (c', sent # effs))
         else if event AND EVENT_DISCONNECTED \<noteq> 0 then
           (c\<lparr>connected := False\<rparr>, [sent])
         else if event AND EVENT_CONNECT_RETRIED \<noteq> 0 then
           (let c1 = c\<lparr>reconnect_attempt := reconnect_attempt c + 1\<rparr>
            in if reconnect_attempt c1 = 50 then
                 (let (c', effs) = give_up c1 True in (c', sent # effs))
               else (c1, [sent]))
         else if event AND EVENT_MONITOR_STOPPED \<noteq> 0 then
           (c\<lparr>monitor_alive := False\<rparr>, [sent])
         else (c, [sent]))"

text \<open>
  \<^verbatim>\<open>connect_callback\<close> of \<^verbatim>\<open>RMQCore.loop\<close>: \<^verbatim>\<open>router_connected\<close> is set to True after
  the bindings have been searched, so \<^verbatim>\<open>hello()\<close> is always called.
\<close>

definition connect_callback :: "Core \<Rightarrow> Core \<times> effect list" where
  "connect_callback c = hello c"

subsection \<open>What happens to a running core\<close>

datatype zmq_errno = EAGAIN | ENOTSOCK | OtherErrno

text \<open>
  The things that make the greenlets of a core move: \<^verbatim>\<open>vip_loop\<close> of ZMQCore receives
  a message or a ZMQError; \<^verbatim>\<open>monitor\<close> reads an event or gets a ZMQError; \<^verbatim>\<open>vip_loop\<close>
  of RMQCore takes a message off its queue, times out (\<open>None\<close>) or gets another
  exception; the broker connection calls \<^verbatim>\<open>connect_callback\<close> or
  \<^verbatim>\<open>connection_error\<close>; time passes.
\<close>

datatype input =
    Recv Message
  | RecvError zmq_errno
  | Monitor nat
  | MonitorError zmq_errno
  | QueueGet "Message option"
  | QueueError
  | ConnectCallback
  | ConnectionError
  | Elapse nat

text \<open>
  The greenlets whose wait in \<^verbatim>\<open>connection_failed_check\<close> has ended run on, one
  after the other. The flag of \<^verbatim>\<open>hello_response_event\<close> is never cleared, so the wait
  has returned True exactly if the flag is set when the wait ends.
\<close>

fun run_checks :: "Core \<Rightarrow> nat \<Rightarrow> Core \<times> effect list" where
  "run_checks c 0 = (c, [])"
| "run_checks c (Suc n) =
     (let (c1, effs1) = connection_failed_check c (hello_response_event c);
          (c2, effs2) = run_checks c1 n
      in (c2, effs1 @ effs2))"

definition elapse :: "Core \<Rightarrow> nat \<Rightarrow> Core \<times> effect list" where
  "elapse c dt =
     (let t = clock c + dt;
          due = filter (\<lambda>d. d \<le> t) (checks c);
          c1 = c\<lparr>clock := t, checks := filter (\<lambda>d. t < d) (checks c)\<rparr>
      in run_checks c1 (length due))"

fun core_step :: "env \<Rightarrow> Core \<Rightarrow> input \<Rightarrow> Core \<times> effect list" where
  "core_step env c (Recv message) =
     (if vip_loop_alive c
      then (let (c', effs, message') = zmq_vip_loop_body env c message in (c', effs))
      else (c, []))"
| "core_step env c (RecvError errno) =
     (if vip_loop_alive c \<and> errno \<noteq> EAGAIN then (c\<lparr>vip_loop_alive := False\<rparr>, [])
      else (c, []))"
| "core_step env c (Monitor event) =
     (if monitor_alive c then monitor_body c event else (c, []))"
| "core_step env c (MonitorError errno) =
     (if monitor_alive c \<and> errno = ENOTSOCK then (c\<lparr>monitor_alive := False\<rparr>, [])
      else (c, []))"
| "core_step env c (QueueGet None) = (c, [])"
| "core_step env c (QueueGet (Some message)) =
     (if vip_loop_alive c
      then (let (c', effs, message') = rmq_vip_loop_body env c message in (c', effs))
      else (c, []))"
| "core_step env c QueueError =
     (if vip_loop_alive c then (c\<lparr>vip_loop_alive := False\<rparr>, [Log ERROR ''exc.args''])
      else (c, []))"
| "core_step env c ConnectCallback = connect_callback c"
| "core_step env c ConnectionError = give_up c False"
| "core_step env c (Elapse dt) = elapse c dt"

text \<open>The states before, the inputs and the effects of a sequence of inputs.\<close>

fun core_run :: "env \<Rightarrow> Core \<Rightarrow> input list \<Rightarrow> (Core \<times> input \<times> effect list) list" where
  "core_run env c [] = []"
| "core_run env c (i # ins) =
     (let (c', effs) = core_step env c i in (c, i, effs) # core_run env c' ins)"


subsection \<open>run\<close>

text \<open>
  \<^verbatim>\<open>BasicCore.run\<close> up to its wait, with the first two stages of \<^verbatim>\<open>loop\<close>: \<^verbatim>\<open>onsetup\<close>
  is sent; ZMQCore spawns the monitor for a tcp or ipc address, connects and, for an
  inproc address, calls \<^verbatim>\<open>hello()\<close>; RMQCore (the class of a core whose message bus is
  \<^verbatim>\<open>rmq\<close>) connects with its two callbacks, which arrive as inputs; the
  greenlet of \<^verbatim>\<open>vip_loop\<close> is spawned; \<^verbatim>\<open>onstart\<close> is sent and the running event set
  unless the class delays them.
\<close>

definition run_start :: "Core \<Rightarrow> Core \<times> effect list" where
  "run_start c =
     (let effs0 = [SignalSend onsetup []];
          (c1, effs1) =
            (if messagebus c = ''rmq'' then (c, [])
             else (let c' = c\<lparr>monitor_alive := (take 4 (address c) \<in> {''tcp:'', ''ipc:''})\<rparr>
                   in if take 7 (address c') = ''inproc:'' then hello c' else (c', [])));
          c2 = c1\<lparr>vip_loop_alive := True\<rparr>;
          effs2 = (if \<not> delay_onstart_signal c2 then [SignalSend onstart []] else []);
          (c3, effs3) =
            (if \<not> delay_running_event_set c2 then
               (case running_event c2 of
                  None \<Rightarrow> (c2, [])
                | Some _ \<Rightarrow> (c2\<lparr>running_event := Some True\<rparr>, [RunningEventSet]))
             else (c2, []))
      in (c3, effs0 @ effs1 @ effs2 @ effs3))"

text \<open>The end of \<^verbatim>\<open>run\<close>, after the stop event: \<^verbatim>\<open>onstop\<close>, then \<^verbatim>\<open>onfinish\<close>.\<close>

definition run_finish :: "effect list" where
  "run_finish = [SignalSend onstop [], SignalSend onfinish []]"

text \<open>
  How a call of \<^verbatim>\<open>run\<close> stands after the inputs given to it: it has returned, it has
  raised, or it is still blocked in its wait. Each with the effects so far.
\<close>

datatype run_result =
    Returned Core "effect list"
  | Raised string "effect list"
  | Blocked Core "effect list"

fun add_effects :: "effect list \<Rightarrow> run_result \<Rightarrow> run_result" where
  "add_effects effs (Returned c effs') = Returned c (effs @ effs')"
| "add_effects effs (Raised e effs') = Raised e (effs @ effs')"
| "add_effects effs (Blocked c effs') = Blocked c (effs @ effs')"

text \<open>
  The wait of \<^verbatim>\<open>run\<close>, \<^verbatim>\<open>gevent.wait([loop, stop], count=1)\<close>: it ends with a
  RuntimeError when the greenlet of \<^verbatim>\<open>vip_loop\<close> has ended, and goes on to the end of
  \<^verbatim>\<open>run\<close> when the stop event is set; until then the inputs are worked off.
\<close>

fun run_wait :: "env \<Rightarrow> Core \<Rightarrow> input list \<Rightarrow> run_result" where
  "run_wait env c ins =
     (if \<not> vip_loop_alive c then Raised ''VIP loop ended prematurely'' []
      else if stop_event c then Returned c run_finish
      else case ins of
             [] \<Rightarrow> Blocked c []
           | i # ins' \<Rightarrow>
               (let (c', effs) = core_step env c i
                in add_effects effs (run_wait env c' ins')))"

declare run_wait.simps [simp del]

definition run :: "env \<Rightarrow> Core \<Rightarrow> input list \<Rightarrow> run_result" where
  "run env c ins = (let (c0, effs0) = run_start c in add_effects effs0 (run_wait env c0 ins))"

text \<open>An input that makes a receive loop process the welcome frame of the outstanding hello.\<close>

fun welcome_input :: "Core \<Rightarrow> input \<Rightarrow> bool" where
  "welcome_input c (Recv message) = (vip_loop_alive c \<and> is_welcome c message)"
| "welcome_input c (QueueGet (Some message)) = (vip_loop_alive c \<and> is_welcome c message)"
| "welcome_input c _ = False"

section \<open>PeerList (subsystems/peerlist.py)\<close>

datatype py_error = IndexError | JSONDecodeError

text \<open>
  How an AsyncResult was completed: \<^verbatim>\<open>result.set(peers)\<close>, \<^verbatim>\<open>result.set(...)\<close> with a
  decoded JSON value, or \<^verbatim>\<open>result.set_exception(error)\<close>.
\<close>

datatype 'j outcome = SetPeers "arg list" | SetJson 'j | SetException VIPError

datatype peerlist_effect =
  onadd_send arg "arg option" | ondrop_send arg "arg option" | LogError string

text \<open>
  \<open>results\<close> is \<^verbatim>\<open>self._results\<close>, the table from correlation ids to the pending
  AsyncResult objects, which are named by numbers; \<open>next_result\<close> is the number of the
  next object to be created, and \<open>completed\<close> logs every completion of an AsyncResult,
  in order.
\<close>

record 'j PeerList =
  results :: "string \<rightharpoonup> nat"
  next_result :: nat
  completed :: "(nat \<times> 'j outcome) list"
  peers_list :: "arg set"

definition PeerList_init :: "'j PeerList" where
  "PeerList_init = \<lparr>results = Map.empty, next_result = 0, completed = [], peers_list = {}\<rparr>"

text \<open>
  Modelled from the spec: \<^verbatim>\<open>ResultsDictionary\<close> (results.py) is not among the source
  files. "\<^verbatim>\<open>next() -> (correlationId, future)\<close>: allocates a fresh, session-unique
  identifier and a pending future"; the identifier is the number of the new future in
  decimal. The table is a dictionary: \<^verbatim>\<open>pop\<close> removes and returns the entry of a key and
  raises KeyError when there is none (\<open>None\<close>).
\<close>

definition ResultsDictionary_next :: "'j PeerList \<Rightarrow> (string \<times> nat) \<times> 'j PeerList" where
  "ResultsDictionary_next pl =
     (let h = next_result pl; ident = str_nat h
      in ((ident, h), pl\<lparr>results := (results pl)(ident \<mapsto> h), next_result := h + 1\<rparr>))"

definition ResultsDictionary_pop :: "'j PeerList \<Rightarrow> string \<Rightarrow> (nat \<times> 'j PeerList) option" where
  "ResultsDictionary_pop pl ident =
     (case results pl ident of
        None \<Rightarrow> None
      | Some h \<Rightarrow> Some (h, pl\<lparr>results := (results pl)(ident := None)\<rparr>))"

text \<open>The truth value of an argument, as \<^verbatim>\<open>if message_bus:\<close> tests it.\<close>

fun arg_bool :: "arg \<Rightarrow> bool" where
  "arg_bool (Str s) = (s \<noteq> [])"
| "arg_bool (Num n) = (n \<noteq> 0)"

definition result_set :: "'j PeerList \<Rightarrow> nat \<Rightarrow> 'j outcome \<Rightarrow> 'j PeerList" where
  "result_set pl h out = pl\<lparr>completed := completed pl @ [(h, out)]\<rparr>"

text \<open>
  \<^verbatim>\<open>PeerList._handle_subsystem\<close>. \<open>loads\<close> stands for \<^verbatim>\<open>jsonapi.loads\<close>, \<open>None\<close> when it
  raises. When the handler raises, the error comes with the state it leaves behind.
\<close>

definition PeerList_handle_subsystem ::
  "(arg \<Rightarrow> 'j option) \<Rightarrow> 'j PeerList \<Rightarrow> Message
     \<Rightarrow> (py_error \<times> 'j PeerList) + ('j PeerList \<times> peerlist_effect list)" where
  "PeerList_handle_subsystem loads pl message =
     (case args message of
        [] \<Rightarrow> Inr (pl, [LogError ''missing peerlist subsystem operation''])
      | op # rest \<Rightarrow>
          if op \<in> {Str ''add'', Str ''drop''} then
            (case rest of
               [] \<Rightarrow> Inr (pl, [LogError ''missing peerlist identity in %s operation''])
             | p # rest' \<Rightarrow>
                 (let message_bus = (case rest' of [] \<Rightarrow> None | b # _ \<Rightarrow> Some b);
                      bus = (case message_bus of
                               None \<Rightarrow> None
                             | Some b \<Rightarrow> if arg_bool b then Some b else None)
                  in if op = Str ''add''
                     then Inr (pl\<lparr>peers_list := insert p (peers_list pl)\<rparr>, [onadd_send p bus])
                     else Inr (pl\<lparr>peers_list := peers_list pl - {p}\<rparr>, [ondrop_send p bus])))
          else if op = Str ''listing'' then
            (case ResultsDictionary_pop pl (msg_id message) of
               None \<Rightarrow> Inr (pl, [])
             | Some (h, pl1) \<Rightarrow>
                 Inr ((result_set pl1 h (SetPeers rest))\<lparr>peers_list := set rest\<rparr>, []))
          else if op = Str ''listing_with_messagebus'' then
            (case ResultsDictionary_pop pl (msg_id message) of
               None \<Rightarrow> Inr (pl, [])
             | Some (h, pl1) \<Rightarrow>
                 (case rest of
                    [] \<Rightarrow> Inl (IndexError, pl1)
                  | a # _ \<Rightarrow>
                      (case loads a of
                         None \<Rightarrow> Inl (JSONDecodeError, pl1)
                       | Some v \<Rightarrow> Inr (result_set pl1 h (SetJson v), []))))
          else Inr (pl, [LogError ''unknown peerlist subsystem operation == {}'']))"

text \<open>\<^verbatim>\<open>PeerList._handle_error\<close>.\<close>

definition PeerList_handle_error :: "'j PeerList \<Rightarrow> Message \<Rightarrow> VIPError \<Rightarrow> 'j PeerList" where
  "PeerList_handle_error pl message error =
     (case ResultsDictionary_pop pl (msg_id message) of
        None \<Rightarrow> pl
      | Some (h, pl1) \<Rightarrow> result_set pl1 h (SetException error))"

text \<open>
  What happens to a PeerList: a request allocates a result (\<^verbatim>\<open>next(self._results)\<close> in
  \<^verbatim>\<open>list\<close>, \<^verbatim>\<open>add_peer\<close>, ...), a frame of the subsystem arrives, an error arrives.
\<close>

datatype peerlist_op = Request | Reply Message | Error Message VIPError

text \<open>The state after an operation, also when the handler has raised.\<close>

fun peerlist_step :: "(arg \<Rightarrow> 'j option) \<Rightarrow> 'j PeerList \<Rightarrow> peerlist_op \<Rightarrow> 'j PeerList" where
  "peerlist_step loads pl Request = snd (ResultsDictionary_next pl)"
| "peerlist_step loads pl (Reply message) =
     (case PeerList_handle_subsystem loads pl message of
        Inl (e, pl') \<Rightarrow> pl'
      | Inr (pl', effs) \<Rightarrow> pl')"
| "peerlist_step loads pl (Error message error) = PeerList_handle_error pl message error"

definition peerlist_run ::
  "(arg \<Rightarrow> 'j option) \<Rightarrow> 'j PeerList \<Rightarrow> peerlist_op list \<Rightarrow> 'j PeerList" where
  "peerlist_run loads pl ops = foldl (peerlist_step loads) pl ops"

text \<open>
  The pending results are different objects, none of them completed, and no object
  has been completed twice.
\<close>

definition results_inv :: "'j PeerList \<Rightarrow> bool" where
  "results_inv pl \<longleftrightarrow>
     distinct (map fst (completed pl)) \<and>
     (\<forall>i h. results pl i = Some h \<longrightarrow>
        h < next_result pl \<and> h \<notin> fst ` set (completed pl)) \<and>
     (\<forall>i j h. results pl i = Some h \<and> results pl j = Some h \<longrightarrow> i = j) \<and>
     (\<forall>h \<in> fst ` set (completed pl). h < next_result pl)"

section \<open>Auxiliary definitions for the statements\<close>

text \<open>The \<^verbatim>\<open>onviperror\<close> signals sent among some effects, in order.\<close>

definition vip_error_sends :: "effect list \<Rightarrow> (VIPError \<times> Message) list" where
  "vip_error_sends effs =
     concat (map (\<lambda>e. case e of VipErrorSend err m \<Rightarrow> [(err, m)] | _ \<Rightarrow> []) effs)"

text \<open>
  The examples: the parts that the source files do not hold, with values chosen for the
  examples (93 is EPROTONOSUPPORT; the subsystem of a VIPError is the fourth argument
  it was built from; a Signal is true when something is connected to it), and a ZMQ core
  that \<^verbatim>\<open>run\<close> has started.
\<close>

definition example_env :: env where
  "example_env = \<lparr>INVALID_SUBSYSTEM = [Num 93, Str ''unknown subsystem''],
     error_subsystem = (\<lambda>e. case e of from_errno as \<Rightarrow>
        (case drop 3 as of Str s # _ \<Rightarrow> s | _ \<Rightarrow> '''')),
     Signal_bool = receivers_nonempty\<rparr>"

definition example_core :: Core where
  "example_core = fst (run_start (Core_init ''agent'' ''tcp://127.0.0.1:22916'' ''zmq'' (Some False)))"


text \<open>The two effects that tell user code that the agent has started.\<close>

definition start_effect :: "effect \<Rightarrow> bool" where
  "start_effect e \<longleftrightarrow> e = SignalSend onstart [] \<or> e = RunningEventSet"

text \<open>The welcome frame a router sends in answer to the hello number \<open>n\<close> of the example core.\<close>

definition example_welcome :: "nat \<Rightarrow> Message" where
  "example_welcome n =
     \<lparr>peer = '''', subsystem = ''hello'', msg_id = ''connect.hello.'' @ str_nat n, user = '''',
      args = [Str ''welcome'', Str ''0.1'', Str ''router'', Str ''agent'']\<rparr>"




text \<open>A listing reply for the first request of a fresh PeerList.\<close>

definition example_listing :: Message where
  "example_listing =
     \<lparr>peer = '''', subsystem = ''peerlist'', msg_id = ''0'', user = '''',
      args = [Str ''listing'', Str ''alice'', Str ''bob'']\<rparr>"

section \<open>Properties of the scheduler\<close>











lemma schedule_callback_fields:
  "schedule_heap (schedule_callback conv c t cb) = schedule_heap c @ [(conv t, Suc (tie_breaker c), cb)]"
  "tie_breaker (schedule_callback conv c t cb) = Suc (tie_breaker c)"
  "objects (schedule_callback conv c t cb) = objects c"
  "calls (schedule_callback conv c t cb) = calls c"
  "greenlets (schedule_callback conv c t cb) = greenlets c"
  by (simp_all add: schedule_callback_def get_tie_breaker_def heappush_def Let_def
        split: option.splits)








lemma set_finished_fields:
  "length (objects (set_finished c k)) = length (objects c)"
  "calls (set_finished c k) = calls c"
  "h < length (objects c) \<Longrightarrow>
     canceled (objects (set_finished c k) ! h) = canceled (objects c ! h)"
  by (cases "k = h"; simp add: set_finished_def)+

lemma call_function_fields:
  "objects (call_function c k) = objects c"
  "calls (call_function c k) = calls c @ [k]"
  by (simp_all add: call_function_def)

lemma cancel_fields:
  "length (objects (cancel c k)) = length (objects c)"
  "calls (cancel c k) = calls c"
  "h < length (objects c) \<Longrightarrow>
     canceled (objects (cancel c k) ! h) = (k = h \<or> canceled (objects c ! h))"
  by (cases "k = h"; simp add: cancel_def)+

lemma cancel_idem: "cancel (cancel c h) h = cancel c h"
  by (cases "h < length (objects c)") (simp_all add: cancel_def list_update_beyond)

lemma run_callback_canceled:
  assumes "is_canceled c h"
  shows "is_canceled (run_callback conv c g) h \<and>
         count_list (calls (run_callback conv c g)) h = count_list (calls c) h"
proof (cases g)
  case (EventCall k)
  show ?thesis
    using assms unfolding EventCall is_canceled_def
    by (cases "k = h")
       (simp_all add: ScheduledEvent_call_def set_finished_fields call_function_fields)
next
  case (Wrapper k)
  show ?thesis
    using assms unfolding Wrapper is_canceled_def
    by (cases "k = h")
       (auto simp: wrapper_def set_finished_fields call_function_fields
          schedule_callback_fields split: option.splits)
qed

lemma sched_step_canceled:
  fixes c :: "('d::linorder, 't, 'f) BasicCore"
  assumes "is_canceled c h"
  shows "is_canceled (sched_step conv c op) h \<and>
         count_list (calls (sched_step conv c op)) h = count_list (calls c) h"
proof (cases op)
  case (Schedule dl f)
  show ?thesis
    using assms unfolding Schedule is_canceled_def
    by (cases dl)
       (auto simp: schedule_def Let_def schedule_iter_def schedule_callback_fields
          set_finished_fields nth_append split: option.splits)
next
  case (Cancel k)
  show ?thesis
    using assms unfolding Cancel is_canceled_def by (simp add: cancel_fields)
next
  case (Wake now)
  show ?thesis
    using assms unfolding Wake is_canceled_def
    by (simp add: schedule_loop_round_def split: prod.splits)
next
  case Switch
  show ?thesis
  proof (cases "greenlets c")
    case Nil
    then show ?thesis using assms unfolding Switch by (simp add: switch_def)
  next
    case (Cons g gs)
    have "is_canceled (c\<lparr>greenlets := gs\<rparr>) h"
      using assms by (simp add: is_canceled_def)
    from run_callback_canceled[OF this, of conv g]
    show ?thesis unfolding Switch by (simp add: switch_def Cons)
  qed
qed

lemma sched_run_canceled:
  fixes c :: "('d::linorder, 't, 'f) BasicCore"
  shows "is_canceled c h \<Longrightarrow>
     is_canceled (sched_run conv c ops) h \<and>
     count_list (calls (sched_run conv c ops)) h = count_list (calls c) h"
proof (induction ops arbitrary: c)
  case Nil
  then show ?case by (simp add: sched_run_def)
next
  case (Cons op ops)
  from sched_step_canceled[OF Cons.prems, of conv op]
  have 1: "is_canceled (sched_step conv c op) h"
    and 2: "count_list (calls (sched_step conv c op)) h = count_list (calls c) h" by simp_all
  from Cons.IH[OF 1] 2 show ?case by (simp add: sched_run_def)
qed

text \<open>
  Claim C6. For the handle \<open>h\<close> of an event that \<^verbatim>\<open>schedule\<close> has returned, in any state
  of the scheduler: \<^verbatim>\<open>cancel\<close> is idempotent; it touches neither the log of executed
  callbacks (a completed invocation stays as it is) nor the heap; and whatever happens
  afterwards (further \<^verbatim>\<open>schedule\<close> and \<^verbatim>\<open>cancel\<close> calls, rounds of the loop, greenlet
  switches) the callback of \<open>h\<close> is executed no further time. Cancelled before its first
  execution it therefore never executes, and cancelled after one it never executes again.
\<close>

theorem cancel_prevents_execution:
  fixes c :: "('d::linorder, 't, 'f) BasicCore"
  assumes "h < length (objects c)"
  shows "cancel (cancel c h) h = cancel c h \<and>
         calls (cancel c h) = calls c \<and>
         schedule_heap (cancel c h) = schedule_heap c \<and>
         (\<forall>ops. count_list (calls (sched_run conv (cancel c h) ops)) h = count_list (calls c) h)"
proof -
  have "is_canceled (cancel c h) h"
    using assms by (simp add: is_canceled_def cancel_fields)
  from sched_run_canceled[OF this]
  show ?thesis by (simp add: cancel_idem cancel_fields) (simp add: cancel_def)
qed

theorem cancel_prevents_execution_witness:
  "(0::nat) < length (objects (fst (schedule (\<lambda>t. t) (BasicCore_init :: (int, int, string) BasicCore) (Instant 5) ''f''))) \<and>
   calls (sched_run (\<lambda>t. t) (fst (schedule (\<lambda>t. t) (BasicCore_init :: (int, int, string) BasicCore) (Instant 5) ''f''))
            [Wake 10, Switch]) = [0] \<and>
   count_list (calls (sched_run (\<lambda>t. t)
       (cancel (fst (schedule (\<lambda>t. t) (BasicCore_init :: (int, int, string) BasicCore) (Instant 5) ''f'')) 0)
            [Wake 10, Switch])) 0 = 0"
proof -
  let ?c = "fst (schedule (\<lambda>t. t) (BasicCore_init :: (int, int, string) BasicCore) (Instant 5) ''f'')"
  have len: "(0::nat) < length (objects ?c)"
    by (simp add: schedule_def Let_def schedule_callback_fields BasicCore_init_def)
  have run: "calls (sched_run (\<lambda>t. t) ?c [Wake 10, Switch]) = [0]"
    by (simp add: sched_run_def schedule_def schedule_callback_def get_tie_breaker_def
        heappush_def BasicCore_init_def ScheduledEvent_init_def schedule_loop_round_def
        pop_due.simps heappop_def heap_top_def entry_key_def Let_def switch_def
        ScheduledEvent_call_def set_finished_def call_function_def)
  have c0: "calls ?c = []"
    by (simp add: schedule_def Let_def schedule_callback_fields BasicCore_init_def)
  show ?thesis
    using len run c0 cancel_prevents_execution[OF len, of "\<lambda>t. t"] by simp
qed

section \<open>Properties of the core\<close>

lemma example_core_eq:
  "example_core = (Core_init ''agent'' ''tcp://127.0.0.1:22916'' ''zmq'' (Some False))
      \<lparr>monitor_alive := True, vip_loop_alive := True\<rparr>"
  by (simp add: example_core_def run_start_def Core_init_def Let_def)

lemma unknown_subsystem_eq:
  "unknown_subsystem env m =
     \<lparr>peer = peer m, subsystem = ''error'', msg_id = msg_id m, user = '''',
      args = INVALID_SUBSYSTEM env @ [Str (subsystem m)]\<rparr>"
  by (cases m) (simp add: unknown_subsystem_def Let_def)

text \<open>
  Claim C5. When a receive loop (of ZMQCore or of RMQCore) has taken a frame whose
  subsystem has no entry in \<^verbatim>\<open>self.subsystems\<close>, and the frame is not the welcome that
  the handshake intercepts, the round logs the condition and sends exactly one frame:
  to the peer of the frame, with its id, subsystem \<^verbatim>\<open>error\<close>, the code and message of
  \<^verbatim>\<open>router._INVALID_SUBSYSTEM\<close> followed by the original subsystem name as arguments.
  The core is left as it was, the loop alive.
\<close>

theorem unknown_subsystem_one_error_reply:
  assumes "vip_loop_alive c" and "subsystems c (subsystem m) = None" and "\<not> is_welcome c m"
  shows "core_step env c (Recv m) =
           (c, [Log ERROR ''peer %r requested unknown subsystem %r'',
                SendVipObject \<lparr>peer = peer m, subsystem = ''error'', msg_id = msg_id m,
                  user = '''', args = INVALID_SUBSYSTEM env @ [Str (subsystem m)]\<rparr>]) \<and>
         core_step env c (QueueGet (Some m)) =
           (c, [Log ERROR ''peer %r requested unknown subsystem %r'',
                SendVipObject \<lparr>peer = peer m, subsystem = ''error'', msg_id = msg_id m,
                  user = '''', args = INVALID_SUBSYSTEM env @ [Str (subsystem m)]\<rparr>])"
  using assms
  by (simp add: zmq_vip_loop_body_def rmq_vip_loop_body_def unknown_subsystem_eq Let_def)

theorem unknown_subsystem_one_error_reply_witness:
  "core_step example_env example_core
      (Recv \<lparr>peer = ''bob'', subsystem = ''nosuch'', msg_id = ''7'', user = ''u'', args = [Str ''x'']\<rparr>) =
     (example_core,
      [Log ERROR ''peer %r requested unknown subsystem %r'',
       SendVipObject \<lparr>peer = ''bob'', subsystem = ''error'', msg_id = ''7'', user = '''',
         args = [Num 93, Str ''unknown subsystem'', Str ''nosuch'']\<rparr>])"
proof -
  let ?m = "\<lparr>peer = ''bob'', subsystem = ''nosuch'', msg_id = ''7'', user = ''u'', args = [Str ''x'']\<rparr>"
  have a: "vip_loop_alive example_core" by (simp add: example_core_eq)
  have b: "subsystems example_core (subsystem ?m) = None"
    by (simp add: example_core_eq Core_init_def)
  have c: "\<not> is_welcome example_core ?m" by (simp add: is_welcome_def)
  show ?thesis
    using unknown_subsystem_one_error_reply[OF a b c, of example_env]
    by (simp add: example_env_def)
qed

text \<open>
  Against claim C8 as stated: registering under the name \<^verbatim>\<open>error\<close>, which has a handler
  from \<^verbatim>\<open>__init__\<close> on, or twice under \<^verbatim>\<open>echo\<close>, is accepted and replaces the handler.
\<close>

theorem register_replaces_counterexample:
  "subsystems (Core_init ''agent'' ''tcp://127.0.0.1:22916'' ''zmq'' None) ''error''
     = Some handle_error_method \<and>
   subsystems (register (Core_init ''agent'' ''tcp://127.0.0.1:22916'' ''zmq'' None)
                 ''error'' (Handler 1) None) ''error'' = Some (Handler 1) \<and>
   subsystems (register (register (Core_init ''agent'' ''tcp://127.0.0.1:22916'' ''zmq'' None)
                 ''echo'' (Handler 2) None) ''echo'' (Handler 3) None) ''echo'' = Some (Handler 3)"
  by (simp add: register_def Core_init_def Let_def)

text \<open>
  Claim C8, as amended. \<^verbatim>\<open>self.subsystems\<close> is a dictionary, hence holds at most one
  handler per name; \<^verbatim>\<open>register\<close> assigns \<^verbatim>\<open>self.subsystems[name] = handler\<close> without
  a test, so that a registration under a name that has a handler replaces it: the last
  registration wins. An error handler, if given, is connected to \<^verbatim>\<open>onviperror\<close> in
  addition to those connected before.
\<close>

theorem register_last_wins:
  "subsystems (register c name h error_handler) = (subsystems c)(name \<mapsto> h) \<and>
   subsystems (register (register c name h1 e1) name h2 e2) name = Some h2 \<and>
   onviperror (register c name h error_handler) =
     onviperror c @ (case error_handler of None \<Rightarrow> [] | Some eh \<Rightarrow> [onerror_closure name eh])"
  by (simp add: register_def Let_def split: option.splits)

text \<open>
  Against claim C9 as stated: the message received for the unregistered subsystem
  \<^verbatim>\<open>nosuch\<close> leaves the round with other \<^verbatim>\<open>user\<close>, \<^verbatim>\<open>args\<close> and \<^verbatim>\<open>subsystem\<close>.
\<close>

theorem message_mutated_counterexample:
  "snd (snd (zmq_vip_loop_body example_env example_core
      \<lparr>peer = ''bob'', subsystem = ''nosuch'', msg_id = ''7'', user = ''u'', args = [Str ''x'']\<rparr>))
   = \<lparr>peer = ''bob'', subsystem = ''error'', msg_id = ''7'', user = '''',
      args = [Num 93, Str ''unknown subsystem'', Str ''nosuch'']\<rparr>"
  by (simp add: zmq_vip_loop_body_def is_welcome_def example_core_eq Core_init_def
      unknown_subsystem_eq example_env_def Let_def)

text \<open>
  Claim C9, as amended. A round of a receive loop never changes \<^verbatim>\<open>peer\<close> and \<^verbatim>\<open>id\<close> of
  the received message, and leaves the whole message as received when it is the welcome
  frame or its subsystem is registered; for an unregistered subsystem the round
  overwrites \<^verbatim>\<open>user\<close>, \<^verbatim>\<open>args\<close> and \<^verbatim>\<open>subsystem\<close> of the received object before
  sending it back.
\<close>

theorem message_peer_and_id_kept:
  "(let m1 = snd (snd (zmq_vip_loop_body env c m));
        m2 = snd (snd (rmq_vip_loop_body env c m))
    in peer m1 = peer m \<and> msg_id m1 = msg_id m \<and> peer m2 = peer m \<and> msg_id m2 = msg_id m \<and>
       (is_welcome c m \<or> subsystems c (subsystem m) \<noteq> None \<longrightarrow> m1 = m \<and> m2 = m) \<and>
       (\<not> is_welcome c m \<and> subsystems c (subsystem m) = None \<longrightarrow>
          m1 = m\<lparr>user := '''', args := INVALID_SUBSYSTEM env @ [Str (subsystem m)],
                 subsystem := ''error''\<rparr> \<and> m2 = m1))"
  by (cases m)
     (auto simp: zmq_vip_loop_body_def rmq_vip_loop_body_def unknown_subsystem_def Let_def
        is_welcome_def split: prod.splits option.splits)

theorem message_peer_and_id_kept_witness:
  "snd (snd (zmq_vip_loop_body example_env example_core
      \<lparr>peer = ''bob'', subsystem = ''error'', msg_id = ''7'', user = ''u'', args = [Str ''x'']\<rparr>))
   = \<lparr>peer = ''bob'', subsystem = ''error'', msg_id = ''7'', user = ''u'', args = [Str ''x'']\<rparr>"
proof -
  let ?m = "\<lparr>peer = ''bob'', subsystem = ''error'', msg_id = ''7'', user = ''u'', args = [Str ''x'']\<rparr>"
  have "subsystems example_core (subsystem ?m) \<noteq> None"
    by (simp add: example_core_eq Core_init_def)
  then show ?thesis
    using message_peer_and_id_kept[of example_env example_core ?m]
    by (simp add: Let_def)
qed

text \<open>
  Against claim C10 as stated: with a Signal that is false while nothing is connected
  to it, a frame with 4 arguments delivered to a core without receivers of
  \<^verbatim>\<open>onviperror\<close> sends no signal.
\<close>

theorem handle_error_guard_counterexample:
  "length (args \<lparr>peer = ''bob'', subsystem = ''error'', msg_id = ''7'', user = '''',
      args = [Num 113, Str ''No route to host'', Str ''carol'', Str ''rpc'']\<rparr>) = 4 \<and>
   handle_error example_env example_core
     \<lparr>peer = ''bob'', subsystem = ''error'', msg_id = ''7'', user = '''',
      args = [Num 113, Str ''No route to host'', Str ''carol'', Str ''rpc'']\<rparr> = []"
  by (simp add: handle_error_def example_env_def example_core_eq Core_init_def
      receivers_nonempty_def)

lemma vip_error_sends_receive:
  "vip_error_sends (concat (map (receive_viperror env err m) rs)) = []"
proof (induction rs)
  case Nil
  then show ?case by (simp add: vip_error_sends_def)
next
  case (Cons r rs)
  then show ?case by (cases r) (simp_all add: vip_error_sends_def)
qed

text \<open>
  Claim C10, as amended. \<^verbatim>\<open>handle_error\<close> only logs a frame with fewer than 4 arguments.
  With 4 or more it tests the signal \<^verbatim>\<open>onviperror\<close>: if the signal is true, exactly one
  \<^verbatim>\<open>onviperror\<close> signal is sent, with the VIPError built from the arguments and with the
  message; if it is false, nothing is sent and nothing is logged.
\<close>

theorem handle_error_emits:
  "(length (args m) < 4 \<longrightarrow> handle_error env c m = [Log DEBUG ''unhandled VIP error %s'']) \<and>
   (4 \<le> length (args m) \<and> Signal_bool env (onviperror c) \<longrightarrow>
      vip_error_sends (handle_error env c m) = [(from_errno (args m), m)]) \<and>
   (4 \<le> length (args m) \<and> \<not> Signal_bool env (onviperror c) \<longrightarrow> handle_error env c m = [])"
proof -
  have "vip_error_sends (onviperror_send env c err m) = [(err, m)]" for err
    using vip_error_sends_receive[of env err m "onviperror c"]
    by (simp add: onviperror_send_def vip_error_sends_def)
  then show ?thesis by (simp add: handle_error_def)
qed

theorem handle_error_emits_witness:
  "handle_error example_env (register example_core ''rpc'' (Handler 1) (Some 5))
     \<lparr>peer = ''bob'', subsystem = ''error'', msg_id = ''7'', user = '''',
      args = [Num 113, Str ''No route to host'', Str ''carol'', Str ''rpc'']\<rparr>
   = [VipErrorSend (from_errno [Num 113, Str ''No route to host'', Str ''carol'', Str ''rpc''])
        \<lparr>peer = ''bob'', subsystem = ''error'', msg_id = ''7'', user = '''',
         args = [Num 113, Str ''No route to host'', Str ''carol'', Str ''rpc'']\<rparr>,
      ErrorHandlerCall 5 (from_errno [Num 113, Str ''No route to host'', Str ''carol'', Str ''rpc''])
        \<lparr>peer = ''bob'', subsystem = ''error'', msg_id = ''7'', user = '''',
         args = [Num 113, Str ''No route to host'', Str ''carol'', Str ''rpc'']\<rparr>] \<and>
   vip_error_sends (handle_error example_env (register example_core ''rpc'' (Handler 1) (Some 5))
     \<lparr>peer = ''bob'', subsystem = ''error'', msg_id = ''7'', user = '''',
      args = [Num 113, Str ''No route to host'', Str ''carol'', Str ''rpc'']\<rparr>)
   = [(from_errno [Num 113, Str ''No route to host'', Str ''carol'', Str ''rpc''],
       \<lparr>peer = ''bob'', subsystem = ''error'', msg_id = ''7'', user = '''',
        args = [Num 113, Str ''No route to host'', Str ''carol'', Str ''rpc'']\<rparr>)]"
proof -
  let ?m = "\<lparr>peer = ''bob'', subsystem = ''error'', msg_id = ''7'', user = '''',
      args = [Num 113, Str ''No route to host'', Str ''carol'', Str ''rpc'']\<rparr>"
  let ?c = "register example_core ''rpc'' (Handler 1) (Some 5)"
  have t: "Signal_bool example_env (onviperror ?c)"
    by (simp add: example_env_def register_def receivers_nonempty_def)
  have l: "4 \<le> length (args ?m)" by simp
  have ev: "handle_error example_env ?c ?m =
     [VipErrorSend (from_errno (args ?m)) ?m, ErrorHandlerCall 5 (from_errno (args ?m)) ?m]"
    by (simp add: handle_error_def example_env_def register_def receivers_nonempty_def
        onviperror_send_def example_core_eq Core_init_def)
  show ?thesis
    using handle_error_emits[of ?m example_env ?c] t l ev by simp
qed

lemma stop_fields [simp]:
  "stop_event (fst (stop c p)) = True"
  "connected (fst (stop c p)) = connected c"
  "reconnect_attempt (fst (stop c p)) = reconnect_attempt c"
  "monitor_alive (fst (stop c p)) = monitor_alive c"
  "vip_loop_alive (fst (stop c p)) = vip_loop_alive c"
  "hello_response_event (fst (stop c p)) = hello_response_event c"
  "checks (fst (stop c p)) = checks c"
  "clock (fst (stop c p)) = clock c"
  "running_event (fst (stop c p)) = running_event c"
  by (simp_all add: stop_def)

lemma hello_fields [simp]:
  "stop_event (fst (hello c)) = stop_event c"
  "connected (fst (hello c)) = connected c"
  "reconnect_attempt (fst (hello c)) = reconnect_attempt c"
  "monitor_alive (fst (hello c)) = monitor_alive c"
  "vip_loop_alive (fst (hello c)) = vip_loop_alive c"
  "hello_response_event (fst (hello c)) = hello_response_event c"
  "checks (fst (hello c)) = checks c @ [clock c + hello_timeout]"
  "clock (fst (hello c)) = clock c"
  "running_event (fst (hello c)) = running_event c"
  by (simp_all add: hello_def Let_def)

lemma hello_effects: "\<exists>m. snd (hello c) = [SendVipObject m]"
  by (simp add: hello_def Let_def)

lemma give_up_fields [simp]:
  "stop_event (fst (give_up c w)) = True"
  "connected (fst (give_up c w)) = False"
  "reconnect_attempt (fst (give_up c w)) = reconnect_attempt c"
  "monitor_alive (fst (give_up c w)) = monitor_alive c"
  "vip_loop_alive (fst (give_up c w)) = vip_loop_alive c"
  "hello_response_event (fst (give_up c w)) = hello_response_event c"
  "checks (fst (give_up c w)) = checks c"
  "clock (fst (give_up c w)) = clock c"
  "running_event (fst (give_up c w)) = running_event c"
  by (simp_all add: give_up_def stop_def Let_def)

lemma give_up_effects:
  "snd (give_up c w) = (if w then [DisableMonitor] else []) @ [SignalSend ondisconnected []]"
  by (simp add: give_up_def stop_def Let_def)

lemma retried_bits [simp]:
  "EVENT_CONNECT_RETRIED AND EVENT_CONNECTED = 0"
  "EVENT_CONNECT_RETRIED AND EVENT_DISCONNECTED = 0"
  "EVENT_CONNECT_RETRIED \<noteq> 0"
  by (simp_all add: EVENT_CONNECT_RETRIED_def EVENT_CONNECTED_def EVENT_DISCONNECTED_def)



lemma receive_viperror_no_start:
  "e \<in> set (receive_viperror env err m r) \<Longrightarrow> \<not> start_effect e"
  by (cases r) (auto simp: start_effect_def split: if_splits)

lemma handle_error_no_start:
  "e \<in> set (handle_error env c m) \<Longrightarrow> \<not> start_effect e"
  by (auto simp: handle_error_def onviperror_send_def start_effect_def
      split: if_splits dest: receive_viperror_no_start)

lemma call_handler_no_start:
  "e \<in> set (call_handler env c h m) \<Longrightarrow> \<not> start_effect e"
  by (cases h) (auto simp: start_effect_def dest: handle_error_no_start)

lemma body_not_welcome:
  assumes "\<not> is_welcome c m"
  shows "fst (zmq_vip_loop_body env c m) = c" "fst (rmq_vip_loop_body env c m) = c"
    "e \<in> set (fst (snd (zmq_vip_loop_body env c m))) \<Longrightarrow> \<not> start_effect e"
    "e \<in> set (fst (snd (rmq_vip_loop_body env c m))) \<Longrightarrow> \<not> start_effect e"
  using assms
  by (auto simp: zmq_vip_loop_body_def rmq_vip_loop_body_def Let_def start_effect_def
      split: option.splits dest: call_handler_no_start)

lemma on_welcome_effects:
  "SignalSend onstart [] \<in> set (snd (on_welcome c m))"
  "running_event c \<noteq> None \<Longrightarrow> RunningEventSet \<in> set (snd (on_welcome c m))"
  "hello_response_event (fst (on_welcome c m))"
  by (auto simp: on_welcome_def hello_response_def Let_def split: option.splits)

lemma body_welcome:
  assumes "is_welcome c m"
  shows "fst (zmq_vip_loop_body env c m) = fst (on_welcome c m)"
    "fst (rmq_vip_loop_body env c m) = fst (on_welcome c m)"
    "fst (snd (zmq_vip_loop_body env c m)) = snd (on_welcome c m)"
    "fst (snd (rmq_vip_loop_body env c m)) = snd (on_welcome c m)"
  using assms
  by (auto simp: zmq_vip_loop_body_def rmq_vip_loop_body_def Let_def is_welcome_def
      split: prod.splits)

lemma connection_failed_check_no_start:
  "e \<in> set (snd (connection_failed_check c w)) \<Longrightarrow> \<not> start_effect e"
  by (auto simp: connection_failed_check_def stop_def start_effect_def split: if_splits)

lemma connection_failed_check_fields [simp]:
  "hello_response_event (fst (connection_failed_check c w)) = hello_response_event c"
  "stop_event (fst (connection_failed_check c w)) = (stop_event c \<or> \<not> w)"
  "checks (fst (connection_failed_check c w)) = checks c"
  "clock (fst (connection_failed_check c w)) = clock c"
  "reconnect_attempt (fst (connection_failed_check c w)) = reconnect_attempt c"
  "vip_loop_alive (fst (connection_failed_check c w)) = vip_loop_alive c"
  "monitor_alive (fst (connection_failed_check c w)) = monitor_alive c"
  by (simp_all add: connection_failed_check_def stop_def split: prod.splits)

lemma run_checks_fields:
  "hello_response_event (fst (run_checks c n)) = hello_response_event c \<and>
   stop_event (fst (run_checks c n)) = (stop_event c \<or> (0 < n \<and> \<not> hello_response_event c)) \<and>
   checks (fst (run_checks c n)) = checks c \<and>
   clock (fst (run_checks c n)) = clock c \<and>
   reconnect_attempt (fst (run_checks c n)) = reconnect_attempt c \<and>
   vip_loop_alive (fst (run_checks c n)) = vip_loop_alive c \<and>
   monitor_alive (fst (run_checks c n)) = monitor_alive c"
proof (induction n arbitrary: c)
  case 0
  then show ?case by simp
next
  case (Suc n)
  let ?c1 = "fst (connection_failed_check c (hello_response_event c))"
  have "fst (run_checks c (Suc n)) = fst (run_checks ?c1 n)"
    by (simp add: Let_def split: prod.splits)
  then show ?case using Suc.IH[of ?c1] by auto
qed

lemma run_checks_Suc:
  "run_checks c (Suc n) =
     (fst (run_checks (fst (connection_failed_check c (hello_response_event c))) n),
      snd (connection_failed_check c (hello_response_event c)) @
      snd (run_checks (fst (connection_failed_check c (hello_response_event c))) n))"
  by (simp add: Let_def case_prod_beta)

lemma run_checks_no_start:
  "e \<in> set (snd (run_checks c n)) \<Longrightarrow> \<not> start_effect e"
proof (induction n arbitrary: c)
  case 0
  then show ?case by simp
next
  case (Suc n)
  from Suc.prems have
    "e \<in> set (snd (connection_failed_check c (hello_response_event c))) \<or>
     e \<in> set (snd (run_checks (fst (connection_failed_check c (hello_response_event c))) n))"
    unfolding run_checks_Suc by simp
  then show ?case
    using connection_failed_check_no_start Suc.IH by blast
qed

lemma run_checks_log:
  "0 < n \<Longrightarrow> \<not> hello_response_event c \<Longrightarrow>
     Log ERROR ''No response to hello message after 10 seconds.'' \<in> set (snd (run_checks c n))"
proof (cases n)
  case 0
  then show "0 < n \<Longrightarrow> ?thesis" by simp
next
  case (Suc k)
  assume "\<not> hello_response_event c"
  then have "Log ERROR ''No response to hello message after 10 seconds.''
      \<in> set (snd (connection_failed_check c (hello_response_event c)))"
    by (simp add: connection_failed_check_def case_prod_beta)
  then show ?thesis unfolding Suc run_checks_Suc by simp
qed

lemma monitor_body_eq:
  "monitor_body c ev =
     (if ev AND EVENT_CONNECTED \<noteq> 0 then
        (fst (hello c), SignalSend onsockevent [Num (int ev)] # snd (hello c))
      else if ev AND EVENT_DISCONNECTED \<noteq> 0 then
        (c\<lparr>connected := False\<rparr>, [SignalSend onsockevent [Num (int ev)]])
      else if ev AND EVENT_CONNECT_RETRIED \<noteq> 0 then
        (if reconnect_attempt c = 49 then
           (fst (give_up (c\<lparr>reconnect_attempt := 50\<rparr>) True),
            SignalSend onsockevent [Num (int ev)] # snd (give_up (c\<lparr>reconnect_attempt := 50\<rparr>) True))
         else (c\<lparr>reconnect_attempt := reconnect_attempt c + 1\<rparr>,
               [SignalSend onsockevent [Num (int ev)]]))
      else if ev AND EVENT_MONITOR_STOPPED \<noteq> 0 then
        (c\<lparr>monitor_alive := False\<rparr>, [SignalSend onsockevent [Num (int ev)]])
      else (c, [SignalSend onsockevent [Num (int ev)]]))"
  by (simp add: monitor_body_def Let_def case_prod_beta)

lemma monitor_body_no_start:
  "e \<in> set (snd (monitor_body c ev)) \<Longrightarrow> \<not> start_effect e"
  using hello_effects[of c]
  by (auto simp: monitor_body_eq start_effect_def give_up_effects split: if_splits)

lemma monitor_body_fields:
  "hello_response_event (fst (monitor_body c ev)) = hello_response_event c"
  "stop_event c \<Longrightarrow> stop_event (fst (monitor_body c ev))"
  "clock (fst (monitor_body c ev)) = clock c"
  "vip_loop_alive (fst (monitor_body c ev)) = vip_loop_alive c"
  "set (checks c) \<subseteq> set (checks (fst (monitor_body c ev)))"
  by (auto simp: monitor_body_eq)

lemma hello_response_fields [simp]:
  "hello_response_event (fst (hello_response c)) = True"
  "stop_event (fst (hello_response c)) = stop_event c"
  "connected (fst (hello_response c)) = connected c"
  "reconnect_attempt (fst (hello_response c)) = reconnect_attempt c"
  "monitor_alive (fst (hello_response c)) = monitor_alive c"
  "vip_loop_alive (fst (hello_response c)) = vip_loop_alive c"
  "checks (fst (hello_response c)) = checks c"
  "clock (fst (hello_response c)) = clock c"
  "(running_event (fst (hello_response c)) = None) = (running_event c = None)"
  by (simp_all add: hello_response_def Let_def split: option.splits)

lemma on_welcome_fields [simp]:
  "stop_event (fst (on_welcome c m)) = stop_event c"
  "connected (fst (on_welcome c m)) = True"
  "reconnect_attempt (fst (on_welcome c m)) = reconnect_attempt c"
  "monitor_alive (fst (on_welcome c m)) = monitor_alive c"
  "vip_loop_alive (fst (on_welcome c m)) = vip_loop_alive c"
  "checks (fst (on_welcome c m)) = checks c"
  "clock (fst (on_welcome c m)) = clock c"
  "(running_event (fst (on_welcome c m)) = None) = (running_event c = None)"
  by (simp_all add: on_welcome_def Let_def case_prod_beta)

lemma body_fields:
  "stop_event (fst (zmq_vip_loop_body env c m)) = stop_event c"
  "stop_event (fst (rmq_vip_loop_body env c m)) = stop_event c"
  "reconnect_attempt (fst (zmq_vip_loop_body env c m)) = reconnect_attempt c"
  "reconnect_attempt (fst (rmq_vip_loop_body env c m)) = reconnect_attempt c"
  "vip_loop_alive (fst (zmq_vip_loop_body env c m)) = vip_loop_alive c"
  "vip_loop_alive (fst (rmq_vip_loop_body env c m)) = vip_loop_alive c"
  "monitor_alive (fst (zmq_vip_loop_body env c m)) = monitor_alive c"
  "monitor_alive (fst (rmq_vip_loop_body env c m)) = monitor_alive c"
  "checks (fst (zmq_vip_loop_body env c m)) = checks c"
  "checks (fst (rmq_vip_loop_body env c m)) = checks c"
  "clock (fst (zmq_vip_loop_body env c m)) = clock c"
  "clock (fst (rmq_vip_loop_body env c m)) = clock c"
  "(running_event (fst (zmq_vip_loop_body env c m)) = None) = (running_event c = None)"
  "(running_event (fst (rmq_vip_loop_body env c m)) = None) = (running_event c = None)"
  by (cases "is_welcome c m"; simp add: body_welcome body_not_welcome)+

lemma elapse_eq:
  "elapse c dt =
     run_checks (c\<lparr>clock := clock c + dt, checks := filter (\<lambda>d. clock c + dt < d) (checks c)\<rparr>)
       (length (filter (\<lambda>d. d \<le> clock c + dt) (checks c)))"
  by (simp add: elapse_def Let_def)

lemma elapse_fields:
  "hello_response_event (fst (elapse c dt)) = hello_response_event c"
  "stop_event (fst (elapse c dt)) =
     (stop_event c \<or> ((\<exists>d\<in>set (checks c). d \<le> clock c + dt) \<and> \<not> hello_response_event c))"
  "checks (fst (elapse c dt)) = filter (\<lambda>d. clock c + dt < d) (checks c)"
  "clock (fst (elapse c dt)) = clock c + dt"
  "reconnect_attempt (fst (elapse c dt)) = reconnect_attempt c"
  "vip_loop_alive (fst (elapse c dt)) = vip_loop_alive c"
  "monitor_alive (fst (elapse c dt)) = monitor_alive c"
  by (auto simp: elapse_eq run_checks_fields filter_empty_conv)

declare core_step.simps [simp del]

lemma core_step_eq [simp]:
  "core_step env c (Recv m) =
     (if vip_loop_alive c
      then (fst (zmq_vip_loop_body env c m), fst (snd (zmq_vip_loop_body env c m)))
      else (c, []))"
  "core_step env c (QueueGet (Some m)) =
     (if vip_loop_alive c
      then (fst (rmq_vip_loop_body env c m), fst (snd (rmq_vip_loop_body env c m)))
      else (c, []))"
  "core_step env c (RecvError errno) =
     (if vip_loop_alive c \<and> errno \<noteq> EAGAIN then (c\<lparr>vip_loop_alive := False\<rparr>, [])
      else (c, []))"
  "core_step env c (Monitor event) =
     (if monitor_alive c then monitor_body c event else (c, []))"
  "core_step env c (MonitorError errno) =
     (if monitor_alive c \<and> errno = ENOTSOCK then (c\<lparr>monitor_alive := False\<rparr>, [])
      else (c, []))"
  "core_step env c (QueueGet None) = (c, [])"
  "core_step env c QueueError =
     (if vip_loop_alive c then (c\<lparr>vip_loop_alive := False\<rparr>, [Log ERROR ''exc.args''])
      else (c, []))"
  "core_step env c ConnectCallback = hello c"
  "core_step env c ConnectionError = give_up c False"
  "core_step env c (Elapse dt) = elapse c dt"
  by (simp_all add: core_step.simps case_prod_beta connect_callback_def)





lemma core_step_not_welcome:
  assumes "\<not> welcome_input c i"
  shows "hello_response_event (fst (core_step env c i)) = hello_response_event c"
    and "e \<in> set (snd (core_step env c i)) \<Longrightarrow> \<not> start_effect e"
proof -
  have "hello_response_event (fst (core_step env c i)) = hello_response_event c \<and>
        (e \<in> set (snd (core_step env c i)) \<longrightarrow> \<not> start_effect e)"
  proof (cases i)
    case (Recv m)
    then show ?thesis using assms
      by (auto simp: body_not_welcome)
  next
    case (QueueGet mo)
    then show ?thesis using assms
      by (cases mo) (auto simp: body_not_welcome)
  next
    case (Monitor ev)
    then show ?thesis using monitor_body_no_start[of e c ev]
      by (auto simp: monitor_body_fields)
  next
    case ConnectCallback
    then show ?thesis using hello_effects[of c]
      by (auto simp: start_effect_def)
  next
    case ConnectionError
    then show ?thesis by (auto simp: give_up_effects start_effect_def)
  next
    case (Elapse dt)
    then show ?thesis using run_checks_no_start[of e]
      by (auto simp: elapse_fields) (simp add: elapse_eq)
  qed (auto simp: start_effect_def)
  then show "hello_response_event (fst (core_step env c i)) = hello_response_event c"
    and "e \<in> set (snd (core_step env c i)) \<Longrightarrow> \<not> start_effect e" by simp_all
qed

lemma core_step_welcome:
  assumes "welcome_input c i"
  shows "SignalSend onstart [] \<in> set (snd (core_step env c i))"
    and "running_event c \<noteq> None \<Longrightarrow> RunningEventSet \<in> set (snd (core_step env c i))"
proof -
  have "\<exists>m. (i = Recv m \<or> i = QueueGet (Some m)) \<and> vip_loop_alive c \<and> is_welcome c m"
  proof (cases i)
    case (QueueGet mo)
    then show ?thesis using assms by (cases mo) simp_all
  qed (use assms in simp_all)
  then obtain m where m: "i = Recv m \<or> i = QueueGet (Some m)"
    and w: "vip_loop_alive c" "is_welcome c m" by blast
  from m w show "SignalSend onstart [] \<in> set (snd (core_step env c i))"
    by (auto simp: body_welcome on_welcome_effects)
  from m w show "running_event c \<noteq> None \<Longrightarrow> RunningEventSet \<in> set (snd (core_step env c i))"
    by (auto simp: body_welcome on_welcome_effects)
qed

lemma core_step_running_event:
  "(running_event (fst (core_step env c i)) = None) = (running_event c = None)"
proof (cases i)
  case (QueueGet mo)
  then show ?thesis by (cases mo) (simp_all add: body_fields)
next
  case (Monitor ev)
  then show ?thesis by (simp add: monitor_body_eq)
next
  case (Elapse dt)
  have "(running_event (fst (run_checks c' n)) = None) = (running_event c' = None)" for c' n
  proof (induction n arbitrary: c')
    case 0
    then show ?case by simp
  next
    case (Suc n)
    show ?case unfolding run_checks_Suc fst_conv Suc.IH
      by (simp add: connection_failed_check_def case_prod_beta)
  qed
  then show ?thesis unfolding Elapse by (simp add: elapse_eq)
qed (simp_all add: body_fields)



lemma hello_delay [simp]:
  "delay_onstart_signal (fst (hello c)) = delay_onstart_signal c"
  "delay_running_event_set (fst (hello c)) = delay_running_event_set c"
  by (simp_all add: hello_def Let_def)

lemma run_start_delayed:
  assumes "delay_onstart_signal c" and "delay_running_event_set c"
  shows "run_start c =
     (if messagebus c = ''rmq'' then (c\<lparr>vip_loop_alive := True\<rparr>, [SignalSend onsetup []])
      else if take 7 (address c) = ''inproc:'' then
        ((fst (hello (c\<lparr>monitor_alive := (take 4 (address c) \<in> {''tcp:'', ''ipc:''})\<rparr>)))
           \<lparr>vip_loop_alive := True\<rparr>,
         SignalSend onsetup [] #
           snd (hello (c\<lparr>monitor_alive := (take 4 (address c) \<in> {''tcp:'', ''ipc:''})\<rparr>)))
      else (c\<lparr>monitor_alive := (take 4 (address c) \<in> {''tcp:'', ''ipc:''}),
              vip_loop_alive := True\<rparr>, [SignalSend onsetup []]))"
  using assms by (simp add: run_start_def Let_def case_prod_beta)

lemma run_start_init_fields:
  "reconnect_attempt (fst (run_start (Core_init ident addr bus running))) = 0"
  "(running_event (fst (run_start (Core_init ident addr bus running))) = None) = (running = None)"
  "e \<in> set (snd (run_start (Core_init ident addr bus running))) \<Longrightarrow> \<not> start_effect e"
proof -
  let ?c = "Core_init ident addr bus running"
  have d: "delay_onstart_signal ?c" "delay_running_event_set ?c"
    by (simp_all add: Core_init_def)
  note rs = run_start_delayed[OF d]
  show "reconnect_attempt (fst (run_start ?c)) = 0"
    unfolding rs by (simp add: Core_init_def)
  show "(running_event (fst (run_start ?c)) = None) = (running = None)"
    unfolding rs by (simp add: Core_init_def)
  show "e \<in> set (snd (run_start ?c)) \<Longrightarrow> \<not> start_effect e"
    unfolding rs
    using hello_effects[of "?c\<lparr>monitor_alive := (take 4 (address ?c) \<in> {''tcp:'', ''ipc:''})\<rparr>"]
    by (auto simp: start_effect_def split: if_splits)
qed



lemma core_run_Cons:
  "core_run env c (i # ins) =
     (c, i, snd (core_step env c i)) # core_run env (fst (core_step env c i)) ins"
  by (simp add: case_prod_beta)

lemma core_run_start_effects:
  "x \<in> set (core_run env c ins) \<Longrightarrow>
     ((\<exists>e\<in>set (snd (snd x)). start_effect e) \<longrightarrow> welcome_input (fst x) (fst (snd x))) \<and>
     (welcome_input (fst x) (fst (snd x)) \<longrightarrow>
        SignalSend onstart [] \<in> set (snd (snd x)) \<and>
        (running_event c \<noteq> None \<longrightarrow> RunningEventSet \<in> set (snd (snd x))))"
proof (induction ins arbitrary: c)
  case Nil
  then show ?case by simp
next
  case (Cons i ins)
  from Cons.prems consider "x = (c, i, snd (core_step env c i))"
    | "x \<in> set (core_run env (fst (core_step env c i)) ins)"
    unfolding core_run_Cons by auto
  then show ?case
  proof cases
    case 1
    show ?thesis
      unfolding 1 using core_step_not_welcome(2)[of c i _ env] core_step_welcome[of c i env]
      by auto
  next
    case 2
    from Cons.IH[OF 2] show ?thesis
      by (simp add: core_step_running_event)
  qed
qed

text \<open>
  Claim C1. A core of class \<^verbatim>\<open>Core\<close>, started by \<^verbatim>\<open>run\<close>, sends neither \<^verbatim>\<open>onstart\<close> nor
  sets the caller's running event while it starts; and in every sequence of inputs that
  follows, an input whose processing sends \<^verbatim>\<open>onstart\<close> or sets the running event is a
  frame taken by a live receive loop that is the welcome of the outstanding hello
  (subsystem \<^verbatim>\<open>hello\<close>, the id recorded by \<^verbatim>\<open>hello()\<close>, more than 3 arguments, the first
  of them \<^verbatim>\<open>welcome\<close>). Conversely every such frame sends \<^verbatim>\<open>onstart\<close> and, if the
  caller gave a running event, sets it.
\<close>

theorem onstart_only_on_welcome:
  "(\<forall>e\<in>set (snd (run_start (Core_init ident addr bus running))). \<not> start_effect e) \<and>
   (\<forall>x\<in>set (core_run env (fst (run_start (Core_init ident addr bus running))) ins).
      ((\<exists>e\<in>set (snd (snd x)). start_effect e) \<longrightarrow> welcome_input (fst x) (fst (snd x))) \<and>
      (welcome_input (fst x) (fst (snd x)) \<longrightarrow>
         SignalSend onstart [] \<in> set (snd (snd x)) \<and>
         (running \<noteq> None \<longrightarrow> RunningEventSet \<in> set (snd (snd x)))))"
  using core_run_start_effects[of _ env "fst (run_start (Core_init ident addr bus running))" ins]
  by (auto simp: run_start_init_fields)

lemma example_first_hello:
  "fst (core_step example_env example_core (Monitor EVENT_CONNECTED)) =
     example_core\<lparr>state_ident := Some ''connect.hello.0'', state_count := 1, checks := [10]\<rparr>"
  by (simp add: example_core_eq Core_init_def monitor_body_eq EVENT_CONNECTED_def hello_def
      Let_def str_nat.simps hello_timeout_def)

theorem onstart_only_on_welcome_witness:
  "SignalSend onstart [] \<in>
     set (snd (core_step example_env
        (fst (core_step example_env example_core (Monitor EVENT_CONNECTED)))
        (Recv (example_welcome 0)))) \<and>
   RunningEventSet \<in>
     set (snd (core_step example_env
        (fst (core_step example_env example_core (Monitor EVENT_CONNECTED)))
        (Recv (example_welcome 0))))"
proof -
  let ?c1 = "fst (core_step example_env example_core (Monitor EVENT_CONNECTED))"
  let ?x = "(?c1, Recv (example_welcome 0), snd (core_step example_env ?c1 (Recv (example_welcome 0))))"
  have run: "?x \<in> set (core_run example_env
      (fst (run_start (Core_init ''agent'' ''tcp://127.0.0.1:22916'' ''zmq'' (Some False))))
      [Monitor EVENT_CONNECTED, Recv (example_welcome 0)])"
    unfolding example_core_def[symmetric] core_run_Cons by simp
  have w: "welcome_input (fst ?x) (fst (snd ?x))"
    unfolding example_first_hello
    by (simp add: example_core_eq is_welcome_def example_welcome_def str_nat.simps)
  show ?thesis
    using onstart_only_on_welcome[of "''agent''" "''tcp://127.0.0.1:22916''" "''zmq''"
        "Some False" example_env "[Monitor EVENT_CONNECTED, Recv (example_welcome 0)]"] run w
    by (metis fst_conv snd_conv option.distinct(1))
qed

declare core_run.simps(2) [simp del]

declare core_run_Cons [simp]
















section \<open>Properties of PeerList\<close>

lemma results_inv_init: "results_inv PeerList_init"
  by (simp add: results_inv_def PeerList_init_def)

lemma results_inv_peers [simp]: "results_inv (pl\<lparr>peers_list := x\<rparr>) = results_inv pl"
  by (simp add: results_inv_def)

lemma results_inv_next: "results_inv pl \<Longrightarrow> results_inv (snd (ResultsDictionary_next pl))"
  unfolding results_inv_def ResultsDictionary_next_def Let_def
  by (auto simp: less_Suc_eq)

lemma results_inv_pop:
  assumes "results_inv pl" and "ResultsDictionary_pop pl i = Some (h, pl1)"
  shows "results_inv pl1" and "results_inv (result_set pl1 h out)"
proof -
  from assms(2) have r: "results pl i = Some h"
    and pl1: "pl1 = pl\<lparr>results := (results pl)(i := None)\<rparr>"
    by (auto simp: ResultsDictionary_pop_def split: option.splits)
  show "results_inv pl1"
    using assms(1) unfolding pl1 results_inv_def by (auto split: if_splits)
  show "results_inv (result_set pl1 h out)"
    using assms(1) r unfolding pl1 results_inv_def result_set_def
    by (auto split: if_splits)
qed

lemma pop_fields:
  "ResultsDictionary_pop pl i = Some (h, pl1) \<Longrightarrow>
     results pl1 i = None \<and> completed pl1 = completed pl"
  by (auto simp: ResultsDictionary_pop_def split: option.splits)

lemma pop_None: "ResultsDictionary_pop pl i = None \<longleftrightarrow> results pl i = None"
  by (simp add: ResultsDictionary_pop_def split: option.splits)

lemma results_inv_step: "results_inv pl \<Longrightarrow> results_inv (peerlist_step loads pl op)"
proof (cases op)
  case Request
  assume "results_inv pl"
  then show ?thesis unfolding Request by (simp add: results_inv_next)
next
  case (Reply m)
  assume inv: "results_inv pl"
  show ?thesis
    unfolding Reply using inv results_inv_pop[OF inv]
    by (auto simp: PeerList_handle_subsystem_def Let_def
        split: list.splits option.splits if_splits)
next
  case (Error m err)
  assume inv: "results_inv pl"
  show ?thesis
    unfolding Error using inv results_inv_pop[OF inv]
    by (auto simp: PeerList_handle_error_def split: option.splits)
qed

lemma results_inv_run: "results_inv pl \<Longrightarrow> results_inv (peerlist_run loads pl ops)"
  unfolding peerlist_run_def
  by (induction ops arbitrary: pl) (simp_all add: results_inv_step)

text \<open>
  Claim C7. When the id of a frame is not a key of the table of pending results, the
  reply handler \<^verbatim>\<open>_handle_subsystem\<close> returns without raising and leaves the table and the
  completions as they are (for a listing reply: the whole state, and it does nothing at
  all), and the error handler \<^verbatim>\<open>_handle_error\<close> returns the state unchanged. A resolution or
  a rejection removes the id from the table, whatever was there before, so that an id
  already resolved is an unknown id afterwards. And in every sequence of requests,
  replies and errors on a fresh PeerList no AsyncResult is completed twice.
\<close>

theorem unknown_id_is_noop:
  "(results pl (msg_id m) = None \<longrightarrow>
      (\<exists>pl' effs. PeerList_handle_subsystem loads pl m = Inr (pl', effs) \<and>
                  results pl' = results pl \<and> completed pl' = completed pl) \<and>
      (\<forall>op rest. args m = op # rest \<and> op \<in> {Str ''listing'', Str ''listing_with_messagebus''}
         \<longrightarrow> PeerList_handle_subsystem loads pl m = Inr (pl, [])) \<and>
      PeerList_handle_error pl m err = pl) \<and>
   (\<forall>op rest. args m = op # rest \<and> op \<in> {Str ''listing'', Str ''listing_with_messagebus''}
      \<longrightarrow> results (peerlist_step loads pl (Reply m)) (msg_id m) = None) \<and>
   results (PeerList_handle_error pl m err) (msg_id m) = None \<and>
   distinct (map fst (completed (peerlist_run loads PeerList_init ops)))"
proof -
  have a: "\<exists>pl' effs. PeerList_handle_subsystem loads pl m = Inr (pl', effs) \<and>
                  results pl' = results pl \<and> completed pl' = completed pl"
    if "results pl (msg_id m) = None"
    using that
    by (auto simp: PeerList_handle_subsystem_def Let_def ResultsDictionary_pop_def
        split: list.splits)
  have b: "PeerList_handle_subsystem loads pl m = Inr (pl, [])"
    if "results pl (msg_id m) = None" "args m = op # rest"
       "op \<in> {Str ''listing'', Str ''listing_with_messagebus''}" for op rest
    using that
    by (auto simp: PeerList_handle_subsystem_def ResultsDictionary_pop_def)
  have c: "PeerList_handle_error pl m err = pl" if "results pl (msg_id m) = None"
    using that by (simp add: PeerList_handle_error_def ResultsDictionary_pop_def)
  have d: "results (peerlist_step loads pl (Reply m)) (msg_id m) = None"
    if "args m = op # rest" "op \<in> {Str ''listing'', Str ''listing_with_messagebus''}" for op rest
    using that
    by (auto simp: PeerList_handle_subsystem_def ResultsDictionary_pop_def result_set_def
        split: option.splits list.splits)
  have e: "results (PeerList_handle_error pl m err) (msg_id m) = None"
    by (auto simp: PeerList_handle_error_def ResultsDictionary_pop_def result_set_def
        split: option.splits)
  have f: "distinct (map fst (completed (peerlist_run loads PeerList_init ops)))"
    using results_inv_run[OF results_inv_init, of loads ops] by (simp add: results_inv_def)
  show ?thesis using a b c d e f by blast
qed

theorem unknown_id_is_noop_witness:
  "results (peerlist_step (\<lambda>a. Some a) (snd (ResultsDictionary_next PeerList_init))
             (Reply example_listing)) (msg_id example_listing) = None \<and>
   completed (peerlist_step (\<lambda>a. Some a) (snd (ResultsDictionary_next PeerList_init))
             (Reply example_listing)) = [(0, SetPeers [Str ''alice'', Str ''bob''])] \<and>
   PeerList_handle_subsystem (\<lambda>a. Some a)
     (peerlist_step (\<lambda>a. Some a) (snd (ResultsDictionary_next PeerList_init))
        (Reply example_listing)) example_listing =
     Inr (peerlist_step (\<lambda>a. Some a) (snd (ResultsDictionary_next PeerList_init))
            (Reply example_listing), []) \<and>
   PeerList_handle_error
     (peerlist_step (\<lambda>a. Some a) (snd (ResultsDictionary_next PeerList_init))
        (Reply example_listing)) example_listing (from_errno []) =
     peerlist_step (\<lambda>a. Some a) (snd (ResultsDictionary_next PeerList_init))
        (Reply example_listing)"
proof -
  let ?pl0 = "snd (ResultsDictionary_next (PeerList_init :: arg PeerList))"
  let ?pl1 = "peerlist_step (\<lambda>a. Some a) ?pl0 (Reply example_listing)"
  have args: "args example_listing = Str ''listing'' # [Str ''alice'', Str ''bob'']"
    "Str ''listing'' \<in> {Str ''listing'', Str ''listing_with_messagebus''}"
    by (simp_all add: example_listing_def)
  have gone: "results ?pl1 (msg_id example_listing) = None"
    using unknown_id_is_noop[of ?pl0 example_listing "\<lambda>a. Some a" "from_errno []" "[]"] args
    by blast
  have compl: "completed ?pl1 = [(0, SetPeers [Str ''alice'', Str ''bob''])]"
    by (simp add: example_listing_def PeerList_handle_subsystem_def ResultsDictionary_pop_def
        ResultsDictionary_next_def PeerList_init_def result_set_def Let_def str_nat.simps)
  show ?thesis
    using unknown_id_is_noop[of ?pl1 example_listing "\<lambda>a. Some a" "from_errno []" "[]"]
      args gone compl
    by blast
qed

end
